theory Spec2Isabelle
  imports Complex_Main
begin

section \<open>Errors and configuration strings\<close>

text \<open>
  The exceptions the Python code can raise become values. Every function that can raise
  returns \<open>py_error + 'a\<close>, with \<open>Inl\<close> the exception. The string carried by an
  exception is its message (for \<open>UnboundLocalError\<close>, the name of the unbound variable).
\<close>

datatype py_error =
    NotImplementedError string
  | UnboundLocalError string
  | AssertionError string
  | TypeError string
  | ZeroDivisionError
  | RuntimeError string

definition bind :: "py_error + 'a \<Rightarrow> ('a \<Rightarrow> py_error + 'b) \<Rightarrow> py_error + 'b" where
  "bind m f = (case m of Inl e \<Rightarrow> Inl e | Inr x \<Rightarrow> f x)"

text \<open>
  \<^verbatim>\<open>get_norm_layer\<close> (networks.py): the three normalisation kinds, and
  \<^verbatim>\<open>raise NotImplementedError('normalization layer [%s] is not found' % norm_type)\<close>
  for every other string. \<open>Identity\<close> is the layer the \<^verbatim>\<open>'none'\<close> branch returns.
\<close>

datatype norm_layer = BatchNorm2d | InstanceNorm2d | Identity

definition get_norm_layer :: "string \<Rightarrow> py_error + norm_layer" where
  "get_norm_layer norm_type =
     (if norm_type = ''batch'' then Inr BatchNorm2d
      else if norm_type = ''instance'' then Inr InstanceNorm2d
      else if norm_type = ''none'' then Inr Identity
      else Inl (NotImplementedError (''normalization layer ['' @ norm_type @ ''] is not found'')))"

section \<open>The U-Net hiding network: construction\<close>

text \<open>
  A block is what \<^verbatim>\<open>UnetSkipConnectionBlock.__init__\<close> stores: \<^verbatim>\<open>self.outmost\<close>,
  \<^verbatim>\<open>self.redundance_size\<close>, \<^verbatim>\<open>self.encoder\<close> (a \<^verbatim>\<open>nn.Linear(in, out)\<close>, here its two sizes, or
  \<open>None\<close>) and \<^verbatim>\<open>self.model\<close>, the \<^verbatim>\<open>nn.Sequential\<close> of layers, one of which may be the
  submodule. The arguments of \<open>Conv2d\<close> and \<open>ConvTranspose2d\<close> are in_channels,
  out_channels, kernel_size, stride, padding and bias.
\<close>

datatype layer =
    Conv2d nat nat nat nat nat bool
  | ConvTranspose2d nat nat nat nat nat bool
  | LeakyReLU
  | ReLU
  | Tanh
  | Sigmoid
  | Norm norm_layer nat
  | Dropout
  | Submodule block
and block =
    Block (outmost: bool) (blk_redundance_size: "nat option") (blk_encoder: "(nat \<times> nat) option")
      (blk_model: "layer list")

text \<open>
  \<^verbatim>\<open>model = down + [submodule] + up\<close> followed by \<^verbatim>\<open>nn.Sequential(*model)\<close>: a submodule
  that is \<^verbatim>\<open>None\<close> is not a module, and \<^verbatim>\<open>nn.Sequential\<close> raises a \<^verbatim>\<open>TypeError\<close>.
\<close>

definition Sequential :: "layer list \<Rightarrow> block option \<Rightarrow> layer list \<Rightarrow> py_error + layer list" where
  "Sequential down submodule up =
     (case submodule of
        None \<Rightarrow> Inl (TypeError ''NoneType is not a Module subclass'')
      | Some b \<Rightarrow> Inr (down @ [Submodule b] @ up))"

definition UnetSkipConnectionBlock_init ::
  "nat \<Rightarrow> nat \<Rightarrow> nat option \<Rightarrow> block option \<Rightarrow> bool \<Rightarrow> bool \<Rightarrow> norm_layer \<Rightarrow> bool \<Rightarrow> string
     \<Rightarrow> nat option \<Rightarrow> nat option \<Rightarrow> py_error + block" where
  "UnetSkipConnectionBlock_init outer_nc inner_nc input_nc0 submodule outermost innermost
       norm_layer use_dropout output_function key_len redundance_size =
     (let use_bias = (norm_layer \<noteq> BatchNorm2d);
          input_nc = (case input_nc0 of None \<Rightarrow> outer_nc | Some n \<Rightarrow> n)
      in bind
           (case key_len of
              None \<Rightarrow> Inr (Conv2d input_nc inner_nc 4 2 1 use_bias, None)
            | Some kl \<Rightarrow>
                if \<not> outermost then Inl (AssertionError [])
                else (case redundance_size of
                        None \<Rightarrow> Inl (TypeError ''unsupported operand type(s) for ** or pow()'')
                      | Some r \<Rightarrow>
                          Inr (Conv2d (input_nc * 2) inner_nc 4 2 1 use_bias,
                               Some (kl, r ^ 2 * input_nc))))
           (\<lambda>(downconv, enc).
              let downrelu = LeakyReLU;
                  downnorm = Norm norm_layer inner_nc;
                  uprelu = ReLU;
                  upnorm = Norm norm_layer outer_nc
              in if outermost then
                   (let upconv = ConvTranspose2d (inner_nc * 2) outer_nc 4 2 1 True;
                        down = [downconv]
                    in bind
                         (if output_function = ''tanh'' then Inr [uprelu, upconv, Tanh]
                          else if output_function = ''sigmoid'' then Inr [uprelu, upconv, Sigmoid]
                          else Inl (NotImplementedError
                                 (''activation funciton ['' @ output_function @ ''] is not found'')))
                         (\<lambda>up. bind (Sequential down submodule up)
                            (\<lambda>m. Inr (Block outermost redundance_size enc m))))
                 else if innermost then
                   (let upconv = ConvTranspose2d inner_nc outer_nc 4 2 1 use_bias;
                        down = [downrelu, downconv];
                        up = [uprelu, upconv, upnorm]
                    in Inr (Block outermost redundance_size enc (down @ up)))
                 else
                   (let upconv = ConvTranspose2d (inner_nc * 2) outer_nc 4 2 1 use_bias;
                        down = [downrelu, downconv, downnorm];
                        up = [uprelu, upconv, upnorm]
                    in bind
                         (if use_dropout then Sequential down submodule (up @ [Dropout])
                          else Sequential down submodule up)
                         (\<lambda>m. Inr (Block outermost redundance_size enc m)))))"

text \<open>
  \<^verbatim>\<open>UnetGenerator.__init__\<close>. The loop \<^verbatim>\<open>for i in range(num_downs - 5)\<close> runs
  \<open>nat (num_downs - 5)\<close> times (no time when \<open>num_downs \<le> 5\<close>); \<open>intermediate\<close> is the
  loop, its first argument the number of iterations left.
\<close>

record UnetGenerator =
  factor :: real
  model :: block

fun intermediate :: "nat \<Rightarrow> nat \<Rightarrow> norm_layer \<Rightarrow> bool \<Rightarrow> block \<Rightarrow> py_error + block" where
  "intermediate 0 nhf norm_layer use_dropout unet_block = Inr unet_block"
| "intermediate (Suc n) nhf norm_layer use_dropout unet_block =
     bind (UnetSkipConnectionBlock_init (nhf * 8) (nhf * 8) None (Some unet_block) False False
             norm_layer use_dropout ''sigmoid'' None None)
       (intermediate n nhf norm_layer use_dropout)"

definition UnetGenerator_init ::
  "nat \<Rightarrow> nat \<Rightarrow> int \<Rightarrow> nat \<Rightarrow> string \<Rightarrow> bool \<Rightarrow> string \<Rightarrow> nat option \<Rightarrow> nat option
     \<Rightarrow> py_error + UnetGenerator" where
  "UnetGenerator_init input_nc output_nc num_downs nhf norm_type use_dropout output_function
       key_len redundance_size =
     bind (get_norm_layer norm_type) (\<lambda>norm_layer.
     bind (UnetSkipConnectionBlock_init (nhf * 8) (nhf * 8) None None False True norm_layer False
             ''sigmoid'' None None) (\<lambda>b0.
     bind (intermediate (nat (num_downs - 5)) nhf norm_layer use_dropout b0) (\<lambda>b1.
     bind (UnetSkipConnectionBlock_init (nhf * 4) (nhf * 8) None (Some b1) False False norm_layer
             False ''sigmoid'' None None) (\<lambda>b2.
     bind (UnetSkipConnectionBlock_init (nhf * 2) (nhf * 4) None (Some b2) False False norm_layer
             False ''sigmoid'' None None) (\<lambda>b3.
     bind (UnetSkipConnectionBlock_init nhf (nhf * 2) None (Some b3) False False norm_layer
             False ''sigmoid'' None None) (\<lambda>b4.
     bind (UnetSkipConnectionBlock_init output_nc nhf (Some input_nc) (Some b4) True False
             norm_layer False output_function key_len redundance_size) (\<lambda>m.
     if output_function = ''tanh'' then Inr \<lparr>factor = 10 / 255, model = m\<rparr>
     else if output_function = ''sigmoid'' then Inr \<lparr>factor = 1.0, model = m\<rparr>
     else Inl (NotImplementedError
            (''activation funciton ['' @ output_function @ ''] is not found'')))))))))"

section \<open>Shapes\<close>

text \<open>
  The architecture claims are about shapes, so the forward passes of the networks are
  modelled on the shape \<open>(b, c, h, w)\<close> of a rank-4 image tensor (what \<^verbatim>\<open>x.size()\<close>
  returns). The layers of \<^verbatim>\<open>torch.nn\<close> are library code; each is modelled by the shape
  rule of its documentation, and by the \<^verbatim>\<open>RuntimeError\<close> it raises when the rule has no
  result:
  \<^item> \<^verbatim>\<open>Conv2d\<close>: the channel count must be \<open>in_channels\<close>, the padded input at least the
    kernel, and the output size is \<open>(h + 2p - k) div s + 1\<close>;
  \<^item> \<^verbatim>\<open>ConvTranspose2d\<close>: the output size is \<open>(h - 1) s - 2p + k\<close>;
  \<^item> \<^verbatim>\<open>BatchNorm2d(n, affine=True)\<close> needs \<open>n\<close> channels; \<^verbatim>\<open>InstanceNorm2d(n, affine=False)\<close>
    and the identity take any input; activations and dropout keep the shape;
  \<^item> \<^verbatim>\<open>torch.cat(..., dim=1)\<close> adds the channel counts and needs every other dimension
    to agree.
\<close>

type_synonym shape = "nat \<times> nat \<times> nat \<times> nat"

definition conv2d_shape :: "nat \<Rightarrow> nat \<Rightarrow> nat \<Rightarrow> nat \<Rightarrow> nat \<Rightarrow> shape \<Rightarrow> py_error + shape" where
  "conv2d_shape cin cout k s p x =
     (case x of (b, c, h, w) \<Rightarrow>
        if c \<noteq> cin then Inl (RuntimeError ''expected input to have in_channels channels'')
        else if s = 0 then Inl (RuntimeError ''non-positive stride is not supported'')
        else if h + 2 * p < k \<or> w + 2 * p < k
          then Inl (RuntimeError ''Kernel size can't be greater than actual input size'')
        else Inr (b, cout, (h + 2 * p - k) div s + 1, (w + 2 * p - k) div s + 1))"

definition conv_transpose2d_shape ::
  "nat \<Rightarrow> nat \<Rightarrow> nat \<Rightarrow> nat \<Rightarrow> nat \<Rightarrow> shape \<Rightarrow> py_error + shape" where
  "conv_transpose2d_shape cin cout k s p x =
     (case x of (b, c, h, w) \<Rightarrow>
        if c \<noteq> cin then Inl (RuntimeError ''expected input to have in_channels channels'')
        else if s = 0 then Inl (RuntimeError ''non-positive stride is not supported'')
        else if h = 0 \<or> w = 0 \<or> (h - 1) * s + k \<le> 2 * p \<or> (w - 1) * s + k \<le> 2 * p
          then Inl (RuntimeError ''Output size is too small'')
        else Inr (b, cout, (h - 1) * s + k - 2 * p, (w - 1) * s + k - 2 * p))"

definition norm_shape :: "norm_layer \<Rightarrow> nat \<Rightarrow> shape \<Rightarrow> py_error + shape" where
  "norm_shape nl n x =
     (case x of (b, c, h, w) \<Rightarrow>
        if nl = BatchNorm2d \<and> c \<noteq> n
          then Inl (RuntimeError ''weight should contain as many elements as input channels'')
        else Inr x)"

definition cat1 :: "shape \<Rightarrow> shape \<Rightarrow> py_error + shape" where
  "cat1 x y =
     (case x of (b, c, h, w) \<Rightarrow> case y of (b', c', h', w') \<Rightarrow>
        if b = b' \<and> h = h' \<and> w = w' then Inr (b, c + c', h, w)
        else Inl (RuntimeError ''Sizes of tensors must match except in dimension 1''))"

section \<open>Key injection\<close>

text \<open>
  The line shared by \<^verbatim>\<open>UnetSkipConnectionBlock.forward\<close> and \<^verbatim>\<open>RevealNet.forward\<close>:
  \<^verbatim>\<open>ke = self.encoder(k).view(1, c, r, r).repeat(b, 1, h//r, w//r)\<close>. The key \<open>k\<close> is a
  vector, given by its length. The four operations, as \<^verbatim>\<open>torch\<close> and Python define them:
  \<^item> \<^verbatim>\<open>self.encoder(k)\<close>: an encoder that is \<^verbatim>\<open>None\<close> cannot be called; \<^verbatim>\<open>nn.Linear(i, o)\<close> maps
    a vector of length \<open>i\<close> to a vector of length \<open>o\<close> and raises on any other length;
  \<^item> \<^verbatim>\<open>t.view(a, b, c, d)\<close> gives the shape \<open>(a, b, c, d)\<close> to a tensor of \<open>a * b * c * d\<close>
    elements and raises on any other number of elements;
  \<^item> \<^verbatim>\<open>h//r\<close> raises \<^verbatim>\<open>ZeroDivisionError\<close> when \<open>r = 0\<close>;
  \<^item> \<^verbatim>\<open>t.repeat(ra, rb, rc, rd)\<close> multiplies each dimension by its number of repetitions.
\<close>

definition linear_shape :: "(nat \<times> nat) option \<Rightarrow> nat \<Rightarrow> py_error + nat" where
  "linear_shape enc klen =
     (case enc of
        None \<Rightarrow> Inl (TypeError ''NoneType object is not callable'')
      | Some (i, out) \<Rightarrow>
          if klen \<noteq> i then Inl (RuntimeError ''mat1 and mat2 shapes cannot be multiplied'')
          else Inr out)"

definition view_shape :: "nat \<Rightarrow> shape \<Rightarrow> py_error + shape" where
  "view_shape n s =
     (case s of (a, b, c, d) \<Rightarrow>
        if n \<noteq> a * b * c * d then Inl (RuntimeError ''shape is invalid for input size'')
        else Inr (a, b, c, d))"

definition floordiv :: "nat \<Rightarrow> nat \<Rightarrow> py_error + nat" where
  "floordiv h r = (if r = 0 then Inl ZeroDivisionError else Inr (h div r))"

definition repeat_shape :: "shape \<Rightarrow> shape \<Rightarrow> shape" where
  "repeat_shape s reps =
     (case s of (a, b, c, d) \<Rightarrow> case reps of (ra, rb, rc, rd) \<Rightarrow> (a * ra, b * rb, c * rc, d * rd))"

text \<open>
  The line itself, in the order Python evaluates it: the encoder, the view (whose
  arguments must be integers: a redundance size that is \<^verbatim>\<open>None\<close> is a \<^verbatim>\<open>TypeError\<close>), the two
  divisions, the repeat.
\<close>

definition key_tile :: "(nat \<times> nat) option \<Rightarrow> nat option \<Rightarrow> shape \<Rightarrow> nat \<Rightarrow> py_error + shape" where
  "key_tile enc redundance x klen =
     (case x of (b, c, h, w) \<Rightarrow>
        bind (linear_shape enc klen) (\<lambda>n.
        case redundance of
          None \<Rightarrow> Inl (TypeError ''view(): argument size must be tuple of ints'')
        | Some r \<Rightarrow>
            bind (view_shape n (1, c, r, r)) (\<lambda>v.
            bind (floordiv h r) (\<lambda>hr.
            bind (floordiv w r) (\<lambda>wr.
            Inr (repeat_shape v (b, 1, hr, wr)))))))"

text \<open>The tile is concatenated onto the input: \<^verbatim>\<open>torch.cat((x, ke), dim=1)\<close>.\<close>

definition key_inject :: "(nat \<times> nat) option \<Rightarrow> nat option \<Rightarrow> shape \<Rightarrow> nat \<Rightarrow> py_error + shape" where
  "key_inject enc redundance x klen = bind (key_tile enc redundance x klen) (cat1 x)"

section \<open>The U-Net hiding network: forward pass on shapes\<close>

text \<open>
  \<^verbatim>\<open>nn.Sequential\<close> calls each layer with one argument, so a submodule runs with
  \<^verbatim>\<open>k=None\<close>. \<^verbatim>\<open>UnetSkipConnectionBlock.forward\<close>: the outermost block runs its model (on
  the input with the key tile, when a key is given); every other block concatenates its
  input with the output of its model.
\<close>

fun forward_layer :: "layer \<Rightarrow> shape \<Rightarrow> py_error + shape"
  and forward_seq :: "layer list \<Rightarrow> shape \<Rightarrow> py_error + shape"
  and forward_block :: "block \<Rightarrow> shape \<Rightarrow> nat option \<Rightarrow> py_error + shape" where
  "forward_layer (Conv2d cin cout k s p bias) x = conv2d_shape cin cout k s p x"
| "forward_layer (ConvTranspose2d cin cout k s p bias) x = conv_transpose2d_shape cin cout k s p x"
| "forward_layer LeakyReLU x = Inr x"
| "forward_layer ReLU x = Inr x"
| "forward_layer Tanh x = Inr x"
| "forward_layer Sigmoid x = Inr x"
| "forward_layer (Norm nl n) x = norm_shape nl n x"
| "forward_layer Dropout x = Inr x"
| "forward_layer (Submodule blk) x = forward_block blk x None"
| "forward_seq [] x = Inr x"
| "forward_seq (l # ls) x = bind (forward_layer l x) (forward_seq ls)"
| "forward_block (Block om r enc m) x k =
     (if om then
        (case k of
           None \<Rightarrow> forward_seq m x
         | Some klen \<Rightarrow> bind (key_inject enc r x klen) (forward_seq m))
      else bind (forward_seq m x) (cat1 x))"

text \<open>
  \<^verbatim>\<open>UnetGenerator.forward\<close> returns \<^verbatim>\<open>self.factor * self.model(X, k)\<close>; multiplying by a
  number keeps the shape.
\<close>

definition UnetGenerator_forward_shape :: "UnetGenerator \<Rightarrow> shape \<Rightarrow> nat option \<Rightarrow> py_error + shape" where
  "UnetGenerator_forward_shape G X k = forward_block (model G) X k"

section \<open>The reveal network\<close>

text \<open>
  \<^verbatim>\<open>RevealNet.__init__\<close> checks \<^verbatim>\<open>output_function\<close> (only \<^verbatim>\<open>'sigmoid'\<close> is accepted) before it
  calls \<^verbatim>\<open>get_norm_layer\<close>. \<^verbatim>\<open>redundance_size**2\<close> raises a \<^verbatim>\<open>TypeError\<close> when a key length
  is given and the redundance size is \<^verbatim>\<open>None\<close>.
\<close>

record RevealNet =
  redundance_size :: "nat option"
  encoder :: "(nat \<times> nat) option"
  conv1 :: layer
  conv2 :: layer
  conv3 :: layer
  conv4 :: layer
  conv5 :: layer
  conv6 :: layer
  output_act :: layer
  relu :: layer
  norm1 :: layer
  norm2 :: layer
  norm3 :: layer
  norm4 :: layer
  norm5 :: layer

definition RevealNet_init ::
  "nat \<Rightarrow> nat \<Rightarrow> nat \<Rightarrow> string \<Rightarrow> string \<Rightarrow> nat option \<Rightarrow> nat option \<Rightarrow> py_error + RevealNet" where
  "RevealNet_init input_nc output_nc nrf norm_type output_function key_len redundance =
     bind
       (case key_len of
          None \<Rightarrow> Inr (Conv2d input_nc nrf 3 1 1 True, None)
        | Some kl \<Rightarrow>
            (case redundance of
               None \<Rightarrow> Inl (TypeError ''unsupported operand type(s) for ** or pow()'')
             | Some r \<Rightarrow> Inr (Conv2d (input_nc * 2) nrf 3 1 1 True, Some (kl, r ^ 2 * input_nc))))
       (\<lambda>(c1, enc).
          bind
            (if output_function = ''sigmoid'' then Inr Sigmoid
             else Inl (NotImplementedError
                    (''activation funciton ['' @ output_function @ ''] is not found'')))
            (\<lambda>out. bind (get_norm_layer norm_type)
               (\<lambda>nl. Inr \<lparr>redundance_size = redundance, encoder = enc,
                           conv1 = c1,
                           conv2 = Conv2d nrf (nrf * 2) 3 1 1 True,
                           conv3 = Conv2d (nrf * 2) (nrf * 4) 3 1 1 True,
                           conv4 = Conv2d (nrf * 4) (nrf * 2) 3 1 1 True,
                           conv5 = Conv2d (nrf * 2) nrf 3 1 1 True,
                           conv6 = Conv2d nrf output_nc 3 1 1 True,
                           output_act = out, relu = ReLU,
                           norm1 = Norm nl nrf, norm2 = Norm nl (nrf * 2),
                           norm3 = Norm nl (nrf * 4), norm4 = Norm nl (nrf * 2),
                           norm5 = Norm nl nrf\<rparr>)))"

text \<open>
  \<^verbatim>\<open>RevealNet.forward\<close> on shapes: the key tile is concatenated when a key is given, then
  \<^verbatim>\<open>relu(norm_i(conv_i(X)))\<close> for the first five convolutions and
  \<^verbatim>\<open>output(conv6(X))\<close>.
\<close>

definition RevealNet_forward_shape :: "RevealNet \<Rightarrow> shape \<Rightarrow> nat option \<Rightarrow> py_error + shape" where
  "RevealNet_forward_shape R X k =
     bind (case k of
             None \<Rightarrow> Inr X
           | Some klen \<Rightarrow> key_inject (encoder R) (redundance_size R) X klen)
       (forward_seq
          [conv1 R, norm1 R, relu R, conv2 R, norm2 R, relu R, conv3 R, norm3 R, relu R,
           conv4 R, norm4 R, relu R, conv5 R, norm5 R, relu R, conv6 R, output_act R])"

section \<open>The attack network\<close>

text \<open>
  A batch is the list of its images (\<^verbatim>\<open>X[i]\<close>), so \<^verbatim>\<open>X[a:b]\<close> is \<open>drop a (take b X)\<close> and
  \<^verbatim>\<open>torch.cat(..., dim=0)\<close> appends. The five noise layers come from the module
  \<^verbatim>\<open>noise_layers\<close>, whose code is not part of the sources: they are fields of the network,
  as in \<^verbatim>\<open>AttackNet.__init__\<close>, and a theorem that needs a property of theirs assumes it.
  \<^verbatim>\<open>2*b//5\<close> is \<open>(2 * b) div 5\<close>.

  In the last branch of \<^verbatim>\<open>forward\<close> the source builds the exception without raising it:
  \<^verbatim>\<open>NotImplementedError('noise type [%s] is not found' % self.noise_type)\<close>. The next line
  reads \<^verbatim>\<open>X_noise\<close>, which no branch has assigned, and Python raises \<^verbatim>\<open>UnboundLocalError\<close>.
\<close>

record 'a AttackNet =
  noise_type :: string
  identity :: "'a list \<Rightarrow> 'a list"
  gaussian_noise :: "'a list \<Rightarrow> 'a list"
  gaussian_blur :: "'a list \<Rightarrow> 'a list"
  resize :: "'a list \<Rightarrow> 'a list"
  jpeg :: "'a list \<Rightarrow> 'a list"

definition AttackNet_forward :: "'a AttackNet \<Rightarrow> 'a list \<Rightarrow> py_error + 'a list" where
  "AttackNet_forward A X =
     (let b = length X in
      if noise_type A = ''combine'' then
        (let X_identity = identity A (take (b div 5) X);
             X_gaussian_noise = gaussian_noise A (drop (b div 5) (take (2 * b div 5) X));
             X_gaussian_blur = gaussian_blur A (drop (2 * b div 5) (take (3 * b div 5) X));
             X_resize = resize A (drop (3 * b div 5) (take (4 * b div 5) X));
             X_jpeg = jpeg A (drop (4 * b div 5) X)
         in Inr (X_identity @ X_gaussian_noise @ X_gaussian_blur @ X_resize @ X_jpeg))
      else
        (let X_identity = identity A (take (2 * b div 5) X)
         in bind
              (if noise_type A = ''noise'' then Inr (gaussian_noise A (drop (2 * b div 5) X))
               else if noise_type A = ''blur'' then Inr (gaussian_blur A (drop (2 * b div 5) X))
               else if noise_type A = ''resize'' then Inr (resize A (drop (2 * b div 5) X))
               else if noise_type A = ''jpeg'' then Inr (jpeg A (drop (2 * b div 5) X))
               else Inl (UnboundLocalError ''X_noise''))
              (\<lambda>X_noise. Inr (X_identity @ X_noise))))"

section \<open>Tensors with values\<close>

text \<open>
  \<^verbatim>\<open>forward_pass\<close> (utils/util.py) computes with the values of rank-4 tensors: a tensor is
  the nested list of its entries, indexed by batch, channel, row and column, and is taken
  to be rectangular. \<open>tshape\<close> is \<^verbatim>\<open>t.shape\<close>. Numbers are real numbers; rounding of
  floating point is left out.
\<close>

type_synonym tensor = "real list list list list"



text \<open>\<^verbatim>\<open>torch.zeros(shape)\<close>.\<close>

definition zeros_t :: "shape \<Rightarrow> tensor" where
  "zeros_t s = (case s of (b, c, h, w) \<Rightarrow> replicate b (replicate c (replicate h (replicate w 0))))"






text \<open>\<^verbatim>\<open>c * t\<close> for a number \<open>c\<close>.\<close>

definition smul :: "real \<Rightarrow> tensor \<Rightarrow> tensor" where
  "smul c t = map (map (map (map (\<lambda>v. c * v)))) t"

text \<open>
  \<^verbatim>\<open>UnetGenerator.forward\<close>: \<^verbatim>\<open>return self.factor * self.model(X, k)\<close>. The values a block
  computes depend on its learned weights, so the evaluation of \<^verbatim>\<open>self.model\<close> is the
  argument \<open>run\<close>; a key is the vector of its entries.
\<close>

definition UnetGenerator_forward ::
  "UnetGenerator \<Rightarrow> (block \<Rightarrow> tensor \<Rightarrow> real list option \<Rightarrow> py_error + tensor) \<Rightarrow> tensor
     \<Rightarrow> real list option \<Rightarrow> py_error + tensor" where
  "UnetGenerator_forward G run X k = bind (run (model G) X k) (\<lambda>Y. Inr (smul (factor G) Y))"

section \<open>Key sampling\<close>

text \<open>
  \<^verbatim>\<open>torch.Tensor([float(torch.randn(1)<0) for _ in range(w)])\<close> draws \<open>w\<close> random numbers and
  keeps whether each is negative. The random source is the infinite sequence of these
  outcomes still to come; sampling a key reads the first \<open>w\<close> of them and returns the
  rest.
\<close>

type_synonym rng = "nat \<Rightarrow> bool"

definition sample_key :: "nat \<Rightarrow> rng \<Rightarrow> real list \<times> rng" where
  "sample_key w g = (map (\<lambda>i. if g i then 1 else 0) [0..<w], \<lambda>i. g (i + w))"

text \<open>
  The loop \<^verbatim>\<open>while torch.equal(fake_key, key): fake_key = ...\<close>. It may run forever, and
  then the result is \<open>None\<close>.
\<close>

partial_function (option) resample :: "nat \<Rightarrow> real list \<Rightarrow> real list \<Rightarrow> rng \<Rightarrow> (real list \<times> rng) option" where
  "resample w key fake_key g =
     (if fake_key = key then (case sample_key w g of (fake_key', g') \<Rightarrow> resample w key fake_key' g')
      else Some (fake_key, g))"


section \<open>The forward pass of training\<close>








section \<open>Reading the structure of a network\<close>

text \<open>
  \<open>blocks\<close> lists the blocks of a network from the outside in: a block, then the blocks
  inside its \<^verbatim>\<open>nn.Sequential\<close>. A block is innermost when its model holds no submodule.
  The widths of a block are read off its two convolutions: \<^verbatim>\<open>outer_nc\<close> is the output
  width of its \<^verbatim>\<open>ConvTranspose2d\<close>, \<^verbatim>\<open>inner_nc\<close> the output width of its \<^verbatim>\<open>Conv2d\<close>.
\<close>

fun blocks_layer :: "layer \<Rightarrow> block list"
  and blocks_seq :: "layer list \<Rightarrow> block list"
  and blocks :: "block \<Rightarrow> block list" where
  "blocks_layer (Submodule blk) = blocks blk"
| "blocks_layer (Conv2d cin cout k s p bias) = []"
| "blocks_layer (ConvTranspose2d cin cout k s p bias) = []"
| "blocks_layer LeakyReLU = []"
| "blocks_layer ReLU = []"
| "blocks_layer Tanh = []"
| "blocks_layer Sigmoid = []"
| "blocks_layer (Norm nl n) = []"
| "blocks_layer Dropout = []"
| "blocks_seq [] = []"
| "blocks_seq (l # ls) = blocks_layer l @ blocks_seq ls"
| "blocks (Block om r enc m) = Block om r enc m # blocks_seq m"

fun is_submodule :: "layer \<Rightarrow> bool" where
  "is_submodule (Submodule blk) = True"
| "is_submodule l = False"

definition innermost_block :: "block \<Rightarrow> bool" where
  "innermost_block blk = (filter is_submodule (blk_model blk) = [])"

fun conv_widths :: "layer list \<Rightarrow> nat list" where
  "conv_widths [] = []"
| "conv_widths (Conv2d cin cout k s p bias # ls) = cout # conv_widths ls"
| "conv_widths (l # ls) = conv_widths ls"

fun conv_transpose_widths :: "layer list \<Rightarrow> nat list" where
  "conv_transpose_widths [] = []"
| "conv_transpose_widths (ConvTranspose2d cin cout k s p bias # ls) = cout # conv_transpose_widths ls"
| "conv_transpose_widths (l # ls) = conv_transpose_widths ls"

text \<open>The pair \<open>(outer_nc, inner_nc)\<close> of a block, as lists of the widths found.\<close>

definition widths :: "block \<Rightarrow> nat list \<times> nat list" where
  "widths blk = (conv_transpose_widths (blk_model blk), conv_widths (blk_model blk))"

text \<open>
  Names for the three kinds of block the constructor returns (the lemmas
  \<open>init_innermost\<close>, \<open>init_intermediate\<close> and \<open>init_outermost\<close> below prove that it
  does): they keep the statements about a whole network readable.
\<close>

definition innermost_of :: "nat \<Rightarrow> nat \<Rightarrow> norm_layer \<Rightarrow> block" where
  "innermost_of outer_nc inner_nc nl =
     Block False None None
       [LeakyReLU, Conv2d outer_nc inner_nc 4 2 1 (nl \<noteq> BatchNorm2d), ReLU,
        ConvTranspose2d inner_nc outer_nc 4 2 1 (nl \<noteq> BatchNorm2d), Norm nl outer_nc]"

definition intermediate_of :: "nat \<Rightarrow> nat \<Rightarrow> norm_layer \<Rightarrow> bool \<Rightarrow> block \<Rightarrow> block" where
  "intermediate_of outer_nc inner_nc nl use_dropout sub =
     Block False None None
       ([LeakyReLU, Conv2d outer_nc inner_nc 4 2 1 (nl \<noteq> BatchNorm2d), Norm nl inner_nc,
         Submodule sub, ReLU,
         ConvTranspose2d (inner_nc * 2) outer_nc 4 2 1 (nl \<noteq> BatchNorm2d), Norm nl outer_nc]
        @ (if use_dropout then [Dropout] else []))"

definition outermost_of ::
  "nat \<Rightarrow> nat \<Rightarrow> nat \<Rightarrow> norm_layer \<Rightarrow> string \<Rightarrow> nat option \<Rightarrow> nat option \<Rightarrow> block \<Rightarrow> block" where
  "outermost_of outer_nc inner_nc input_nc nl output_function key_len redundance sub =
     Block True redundance
       (case key_len of None \<Rightarrow> None | Some kl \<Rightarrow> Some (kl, (the redundance) ^ 2 * input_nc))
       [Conv2d (case key_len of None \<Rightarrow> input_nc | Some kl \<Rightarrow> input_nc * 2) inner_nc 4 2 1
          (nl \<noteq> BatchNorm2d),
        Submodule sub, ReLU, ConvTranspose2d (inner_nc * 2) outer_nc 4 2 1 True,
        if output_function = ''tanh'' then Tanh else Sigmoid]"


text \<open>
  The network \<^verbatim>\<open>UnetGenerator.__init__\<close> builds, from the inside out (the lemma
  \<open>UnetGenerator_init_eq\<close> below proves that it does).
\<close>

definition unet_of :: "nat \<Rightarrow> nat \<Rightarrow> int \<Rightarrow> nat \<Rightarrow> norm_layer \<Rightarrow> bool \<Rightarrow> string \<Rightarrow> nat option \<Rightarrow> nat option \<Rightarrow> block" where
  "unet_of input_nc output_nc num_downs nhf nl use_dropout output_function key_len redundance =
     outermost_of output_nc nhf input_nc nl output_function key_len redundance
       (intermediate_of nhf (nhf * 2) nl False
         (intermediate_of (nhf * 2) (nhf * 4) nl False
           (intermediate_of (nhf * 4) (nhf * 8) nl False
             ((intermediate_of (nhf * 8) (nhf * 8) nl use_dropout ^^ nat (num_downs - 5))
                (innermost_of (nhf * 8) (nhf * 8) nl)))))"

text \<open>
  The \<open>n\<close>-th key a random source would give, for keys of length \<open>w\<close>: the outcomes
  \<open>n * w\<close> to \<open>n * w + w - 1\<close>.
\<close>

definition nth_key :: "nat \<Rightarrow> rng \<Rightarrow> nat \<Rightarrow> real list" where
  "nth_key w g n = fst (sample_key w (\<lambda>i. g (i + n * w)))"

section \<open>Slices of a batch\<close>

text \<open>
  Two names used to state what \<^verbatim>\<open>AttackNet.forward\<close> does: the transform its
  \<^verbatim>\<open>if\<close>/\<^verbatim>\<open>elif\<close> chain selects in single mode, and the \<open>i\<close>-th of five equal contiguous
  slices of a batch.
\<close>

definition single_transform :: "'a AttackNet \<Rightarrow> 'a list \<Rightarrow> 'a list" where
  "single_transform A =
     (if noise_type A = ''noise'' then gaussian_noise A
      else if noise_type A = ''blur'' then gaussian_blur A
      else if noise_type A = ''resize'' then resize A
      else jpeg A)"

definition slice5 :: "'a list \<Rightarrow> nat \<Rightarrow> 'a list" where
  "slice5 X i = take (length X div 5) (drop (i * (length X div 5)) X)"

section \<open>A property of blocks used in the shape proofs\<close>

text \<open>
  \<open>doubles blk c d\<close>: the block, run as a submodule, maps every input with \<open>c\<close>
  channels whose sides are positive multiples of \<open>2 ^ d\<close> to the same shape with twice
  the channels (its skip connection).
\<close>

definition doubles :: "block \<Rightarrow> nat \<Rightarrow> nat \<Rightarrow> bool" where
  "doubles blk c d \<longleftrightarrow>
     (\<forall>b h w. 0 < h \<and> 0 < w \<and> 2 ^ d dvd h \<and> 2 ^ d dvd w \<longrightarrow>
        forward_block blk (b, c, h, w) None = Inr (b, 2 * c, h, w))"

section \<open>Rectangular tensors\<close>


section \<open>Basic facts\<close>

lemma bind_Inr: "bind (Inr x) f = f x"
  by (simp add: bind_def)

lemma bind_Inl: "bind (Inl e) f = Inl e"
  by (simp add: bind_def)

lemma bind_eq_Inr: "bind m f = Inr y \<longleftrightarrow> (\<exists>x. m = Inr x \<and> f x = Inr y)"
  by (cases m) (simp_all add: bind_def)

lemma bind_eq_Inl: "bind m f = Inl e \<longleftrightarrow> (m = Inl e \<or> (\<exists>x. m = Inr x \<and> f x = Inl e))"
  by (cases m) (simp_all add: bind_def)

lemma get_norm_layer_unsupported:
  "norm_type \<noteq> ''batch'' \<Longrightarrow> norm_type \<noteq> ''instance'' \<Longrightarrow> norm_type \<noteq> ''none'' \<Longrightarrow>
   get_norm_layer norm_type =
     Inl (NotImplementedError (''normalization layer ['' @ norm_type @ ''] is not found''))"
  by (simp add: get_norm_layer_def)

lemma get_norm_layer_Inr:
  "get_norm_layer norm_type = Inr nl \<longleftrightarrow>
     (norm_type = ''batch'' \<and> nl = BatchNorm2d \<or> norm_type = ''instance'' \<and> nl = InstanceNorm2d
      \<or> norm_type = ''none'' \<and> nl = Identity)"
  by (auto simp add: get_norm_layer_def)

lemma init_innermost:
  "UnetSkipConnectionBlock_init outer_nc inner_nc None sub False True nl ud f None None =
     Inr (innermost_of outer_nc inner_nc nl)"
  by (simp add: UnetSkipConnectionBlock_init_def bind_Inr Let_def innermost_of_def)

lemma init_intermediate:
  "UnetSkipConnectionBlock_init outer_nc inner_nc None (Some sub) False False nl ud f None None =
     Inr (intermediate_of outer_nc inner_nc nl ud sub)"
  by (simp add: UnetSkipConnectionBlock_init_def bind_Inr Sequential_def Let_def intermediate_of_def)

lemma init_outermost:
  "key_len = None \<or> redundance \<noteq> None \<Longrightarrow>
   UnetSkipConnectionBlock_init outer_nc inner_nc (Some input_nc) (Some sub) True inn nl ud f key_len redundance =
     (if f = ''tanh'' \<or> f = ''sigmoid'' then
        Inr (outermost_of outer_nc inner_nc input_nc nl f key_len redundance sub)
      else Inl (NotImplementedError (''activation funciton ['' @ f @ ''] is not found'')))"
  by (auto simp add: UnetSkipConnectionBlock_init_def bind_Inr bind_Inl Sequential_def Let_def outermost_of_def split: option.splits)

lemma intermediate_eq:
  "intermediate n nhf nl ud blk = Inr ((intermediate_of (nhf * 8) (nhf * 8) nl ud ^^ n) blk)"
proof (induction n arbitrary: blk)
  case 0
  show ?case by simp
next
  case (Suc n)
  show ?case
    by (simp add: init_intermediate bind_Inr Suc.IH funpow_swap1)
qed

lemma UnetGenerator_init_eq:
  assumes "get_norm_layer norm_type = Inr nl" and "key_len = None \<or> redundance \<noteq> None"
  shows "UnetGenerator_init input_nc output_nc num_downs nhf norm_type use_dropout output_function key_len redundance =
     (if output_function = ''tanh'' \<or> output_function = ''sigmoid'' then
        Inr \<lparr>factor = (if output_function = ''tanh'' then 10 / 255 else 1),
             model = unet_of input_nc output_nc num_downs nhf nl use_dropout output_function key_len redundance\<rparr>
      else Inl (NotImplementedError (''activation funciton ['' @ output_function @ ''] is not found'')))"
  using assms(2)
  by (simp add: UnetGenerator_init_def assms(1) bind_Inr bind_Inl init_innermost init_intermediate
      intermediate_eq init_outermost unet_of_def)

lemma AttackNet_forward_unsupported:
  "noise_type A \<noteq> ''combine'' \<Longrightarrow> noise_type A \<noteq> ''noise'' \<Longrightarrow> noise_type A \<noteq> ''blur'' \<Longrightarrow>
   noise_type A \<noteq> ''resize'' \<Longrightarrow> noise_type A \<noteq> ''jpeg'' \<Longrightarrow>
   AttackNet_forward A X = Inl (UnboundLocalError ''X_noise'')"
  by (simp add: AttackNet_forward_def bind_Inl Let_def)

lemma RevealNet_init_unsupported:
  "output_function \<noteq> ''sigmoid'' \<Longrightarrow> key_len = None \<or> redundance \<noteq> None \<Longrightarrow>
   RevealNet_init input_nc output_nc nrf norm_type output_function key_len redundance =
     Inl (NotImplementedError (''activation funciton ['' @ output_function @ ''] is not found''))"
  by (auto simp add: RevealNet_init_def bind_Inr bind_Inl split: option.splits)

section \<open>Unsupported configuration strings\<close>

text \<open>
  C1. An unsupported configuration string should fail with \<^verbatim>\<open>NotImplementedError\<close>.
  \<^verbatim>\<open>get_norm_layer\<close>, the outermost \<^verbatim>\<open>UnetSkipConnectionBlock\<close>, \<^verbatim>\<open>UnetGenerator\<close> and
  \<^verbatim>\<open>RevealNet\<close> do (lemmas \<open>get_norm_layer_unsupported\<close>, \<open>init_outermost\<close>,
  \<open>UnetGenerator_init_eq\<close> and \<open>RevealNet_init_unsupported\<close>). \<^verbatim>\<open>AttackNet.forward\<close> does not:
  on the noise type \<^verbatim>\<open>'gaussian'\<close> and a batch of five images it fails with
  \<^verbatim>\<open>UnboundLocalError\<close> for the variable \<^verbatim>\<open>X_noise\<close>, because the exception is built and
  never raised.
\<close>

theorem AttackNet_forward_unsupported_noise_type:
  "AttackNet_forward
     \<lparr>noise_type = ''gaussian'', identity = id, gaussian_noise = id, gaussian_blur = id,
      resize = id, jpeg = id\<rparr> [0, 1, 2, 3, 4 :: nat] = Inl (UnboundLocalError ''X_noise'')"
  by (simp add: AttackNet_forward_unsupported)

section \<open>The attack network\<close>

lemma slices_of_5:
  assumes "5 dvd length X"
  shows "take (length X div 5) X = slice5 X 0"
    and "drop (length X div 5) (take (2 * length X div 5) X) = slice5 X 1"
    and "drop (2 * length X div 5) (take (3 * length X div 5) X) = slice5 X 2"
    and "drop (3 * length X div 5) (take (4 * length X div 5) X) = slice5 X 3"
    and "drop (4 * length X div 5) X = slice5 X 4"
proof -
  from assms obtain n where n: "length X = 5 * n" by (auto simp: dvd_def)
  show "take (length X div 5) X = slice5 X 0" by (simp add: slice5_def)
  show "drop (length X div 5) (take (2 * length X div 5) X) = slice5 X 1"
    by (simp add: slice5_def n drop_take)
  show "drop (2 * length X div 5) (take (3 * length X div 5) X) = slice5 X 2"
    by (simp add: slice5_def n drop_take)
  show "drop (3 * length X div 5) (take (4 * length X div 5) X) = slice5 X 3"
    by (simp add: slice5_def n drop_take)
  show "drop (4 * length X div 5) X = slice5 X 4"
    by (simp add: slice5_def n)
qed

lemma length_slice5:
  assumes "5 dvd length X" and "i < 5"
  shows "length (slice5 X i) = length X div 5"
proof -
  from assms(1) obtain n where n: "length X = 5 * n" by (auto simp: dvd_def)
  from assms(2) have "i = 0 \<or> i = 1 \<or> i = 2 \<or> i = 3 \<or> i = 4" by arith
  then show ?thesis by (auto simp: slice5_def n)
qed

lemma take_drop_chunk: "take n (drop (i * n) X) @ drop (n + i * n) X = drop (i * n) X"
  by (metis append_take_drop_id drop_drop)

lemma concat_slice5:
  assumes d: "5 dvd length X"
  shows "slice5 X 0 @ slice5 X 1 @ slice5 X 2 @ slice5 X 3 @ slice5 X 4 = X"
proof -
  define n where "n = length X div 5"
  have len: "length X = 5 * n" using d by (auto simp: n_def)
  have s: "\<And>i. slice5 X i = take n (drop (i * n) X)" by (simp add: slice5_def n_def)
  have s4: "slice5 X 4 = drop (4 * n) X" by (simp add: s len)
  have c: "\<And>i. take n (drop (i * n) X) @ drop (n + i * n) X = drop (i * n) X"
    by (rule take_drop_chunk)
  have e3: "slice5 X 3 @ slice5 X 4 = drop (3 * n) X"
    using c[of 3] by (simp add: s[of 3] s4)
  have e2: "slice5 X 2 @ drop (3 * n) X = drop (2 * n) X"
    using c[of 2] by (simp add: s[of 2])
  have s1: "slice5 X 1 = take n (drop n X)" by (simp add: slice5_def n_def)
  have e1: "slice5 X 1 @ drop (2 * n) X = drop n X"
    unfolding s1 using c[of 1] by (simp add: mult_2)
  have e0: "slice5 X 0 @ drop n X = X"
    by (simp add: s[of 0])
  show ?thesis by (simp only: e3 e2 e1 e0)
qed

lemma two_fifths_less: "0 < (b::nat) \<Longrightarrow> 2 * b div 5 < b - 2 * b div 5"
  by arith

lemma two_fifths_le: "2 * (b::nat) div 5 \<le> b"
  by arith

text \<open>
  C2. In \<^verbatim>\<open>'combine'\<close> mode, on a batch whose size is divisible by 5, the batch is cut into
  five equal contiguous slices (their concatenation is the batch, each has a fifth of its
  images), slice 0 goes through the identity, slice 1 through the Gaussian noise, slice 2
  through the Gaussian blur, slice 3 through the resize and slice 4 through the JPEG layer,
  and the results are concatenated in that order. When the five layers keep the shape of
  every image (\<open>shp\<close> is any such reading of an image), the output has as many images as
  the input, with the same shapes.
\<close>

theorem AttackNet_forward_combine:
  assumes "noise_type A = ''combine''" and "5 dvd length X"
  shows "AttackNet_forward A X =
           Inr (identity A (slice5 X 0) @ gaussian_noise A (slice5 X 1) @
                gaussian_blur A (slice5 X 2) @ resize A (slice5 X 3) @ jpeg A (slice5 X 4))
         \<and> slice5 X 0 @ slice5 X 1 @ slice5 X 2 @ slice5 X 3 @ slice5 X 4 = X
         \<and> (\<forall>i<5. length (slice5 X i) = length X div 5)
         \<and> ((\<forall>t \<in> {identity A, gaussian_noise A, gaussian_blur A, resize A, jpeg A}.
               \<forall>xs. map shp (t xs) = map shp xs)
            \<longrightarrow> (\<exists>Y. AttackNet_forward A X = Inr Y \<and> length Y = length X \<and> map shp Y = map shp X))"
proof (intro conjI)
  show fw: "AttackNet_forward A X =
           Inr (identity A (slice5 X 0) @ gaussian_noise A (slice5 X 1) @
                gaussian_blur A (slice5 X 2) @ resize A (slice5 X 3) @ jpeg A (slice5 X 4))"
    using assms(1) by (simp add: AttackNet_forward_def Let_def slices_of_5[OF assms(2)])
  show cc: "slice5 X 0 @ slice5 X 1 @ slice5 X 2 @ slice5 X 3 @ slice5 X 4 = X"
    by (rule concat_slice5[OF assms(2)])
  show "\<forall>i<5. length (slice5 X i) = length X div 5"
    using length_slice5[OF assms(2)] by blast
  show "(\<forall>t \<in> {identity A, gaussian_noise A, gaussian_blur A, resize A, jpeg A}.
               \<forall>xs. map shp (t xs) = map shp xs)
            \<longrightarrow> (\<exists>Y. AttackNet_forward A X = Inr Y \<and> length Y = length X \<and> map shp Y = map shp X)"
  proof
    assume p: "\<forall>t \<in> {identity A, gaussian_noise A, gaussian_blur A, resize A, jpeg A}.
               \<forall>xs. map shp (t xs) = map shp xs"
    let ?Y = "identity A (slice5 X 0) @ gaussian_noise A (slice5 X 1) @
                gaussian_blur A (slice5 X 2) @ resize A (slice5 X 3) @ jpeg A (slice5 X 4)"
    have "map shp ?Y = map shp (slice5 X 0 @ slice5 X 1 @ slice5 X 2 @ slice5 X 3 @ slice5 X 4)"
      using p by simp
    then have m: "map shp ?Y = map shp X" by (simp only: cc)
    then have "length ?Y = length X" by (metis length_map)
    with m fw show "\<exists>Y. AttackNet_forward A X = Inr Y \<and> length Y = length X \<and> map shp Y = map shp X"
      by blast
  qed
qed

theorem AttackNet_forward_combine_witness:
  "noise_type \<lparr>noise_type = ''combine'', identity = id, gaussian_noise = map (\<lambda>x. x + 10),
      gaussian_blur = map (\<lambda>x. x + 20), resize = map (\<lambda>x. x + 30), jpeg = map (\<lambda>x. x + (40::nat))\<rparr>
     = ''combine''
   \<and> 5 dvd length [0, 1, 2, 3, 4, 5, 6, 7, 8, 9 :: nat]
   \<and> AttackNet_forward
       \<lparr>noise_type = ''combine'', identity = id, gaussian_noise = map (\<lambda>x. x + 10),
        gaussian_blur = map (\<lambda>x. x + 20), resize = map (\<lambda>x. x + 30), jpeg = map (\<lambda>x. x + 40)\<rparr>
       [0, 1, 2, 3, 4, 5, 6, 7, 8, 9 :: nat]
     = Inr [0, 1, 12, 13, 24, 25, 36, 37, 48, 49]
   \<and> (\<exists>Y. AttackNet_forward
       \<lparr>noise_type = ''combine'', identity = id, gaussian_noise = map (\<lambda>x. x + 10),
        gaussian_blur = map (\<lambda>x. x + 20), resize = map (\<lambda>x. x + 30), jpeg = map (\<lambda>x. x + 40)\<rparr>
       [0, 1, 2, 3, 4, 5, 6, 7, 8, 9 :: nat] = Inr Y
      \<and> length Y = 10
      \<and> map (\<lambda>x. x mod 10) Y = [0, 1, 2, 3, 4, 5, 6, 7, 8, 9])"
proof -
  let ?A = "\<lparr>noise_type = ''combine'', identity = id, gaussian_noise = map (\<lambda>x. x + 10),
      gaussian_blur = map (\<lambda>x. x + 20), resize = map (\<lambda>x. x + 30), jpeg = map (\<lambda>x. x + (40::nat))\<rparr>"
  let ?X = "[0, 1, 2, 3, 4, 5, 6, 7, 8, 9 :: nat]"
  have h1: "noise_type ?A = ''combine''" by simp
  have len: "length ?X = 10" by simp
  have h2: "5 dvd length ?X" unfolding len by simp
  have p: "\<forall>t \<in> {identity ?A, gaussian_noise ?A, gaussian_blur ?A, resize ?A, jpeg ?A}.
             \<forall>xs. map (\<lambda>x. x mod 10) (t xs) = map (\<lambda>x. x mod 10) xs"
    by (simp add: mod_add_eq [symmetric] del: mod_add_eq)
  have s: "slice5 ?X 0 = [0, 1]" "slice5 ?X 1 = [2, 3]" "slice5 ?X 2 = [4, 5]"
    "slice5 ?X 3 = [6, 7]" "slice5 ?X 4 = [8, 9]"
    by (simp_all add: slice5_def)
  from AttackNet_forward_combine[OF h1 h2, of "\<lambda>x. x mod 10"] p
  have r1: "AttackNet_forward ?A ?X = Inr [0, 1, 12, 13, 24, 25, 36, 37, 48, 49]"
    and r2: "\<exists>Y. AttackNet_forward ?A ?X = Inr Y \<and> length Y = 10
            \<and> map (\<lambda>x. x mod 10) Y = [0, 1, 2, 3, 4, 5, 6, 7, 8, 9]"
    by (simp_all only: s) simp_all
  show ?thesis by (intro conjI) (rule h1, rule h2, rule r1, rule r2)
qed

text \<open>
  C10. In a single mode (\<^verbatim>\<open>'noise'\<close>, \<^verbatim>\<open>'blur'\<close>, \<^verbatim>\<open>'resize'\<close> or \<^verbatim>\<open>'jpeg'\<close>), the identity
  is applied to the first \<open>(2 * b) div 5\<close> images and the selected transform to the other
  \<open>b - (2 * b) div 5\<close>; the output is the concatenation in that order, of \<open>b\<close> images when
  the two layers keep the number of images; and the first slice is strictly shorter than
  the second for every batch that is not empty.
\<close>

theorem AttackNet_forward_single:
  assumes "noise_type A \<in> {''noise'', ''blur'', ''resize'', ''jpeg''}"
  shows "AttackNet_forward A X =
           Inr (identity A (take (2 * length X div 5) X) @
                single_transform A (drop (2 * length X div 5) X))
         \<and> take (2 * length X div 5) X @ drop (2 * length X div 5) X = X
         \<and> length (take (2 * length X div 5) X) = 2 * length X div 5
         \<and> length (drop (2 * length X div 5) X) = length X - 2 * length X div 5
         \<and> (X \<noteq> [] \<longrightarrow> length (take (2 * length X div 5) X) < length (drop (2 * length X div 5) X))
         \<and> ((\<forall>xs. length (identity A xs) = length xs) \<and>
            (\<forall>xs. length (single_transform A xs) = length xs)
            \<longrightarrow> (\<exists>Y. AttackNet_forward A X = Inr Y \<and> length Y = length X))"
proof -
  have fw: "AttackNet_forward A X =
           Inr (identity A (take (2 * length X div 5) X) @
                single_transform A (drop (2 * length X div 5) X))"
    using assms by (auto simp add: AttackNet_forward_def Let_def single_transform_def bind_Inr)
  have le: "2 * length X div 5 \<le> length X" by (rule two_fifths_le)
  have lt: "X \<noteq> [] \<longrightarrow> 2 * length X div 5 < length X - 2 * length X div 5"
    using two_fifths_less[of "length X"] by simp
  have l1: "length (take (2 * length X div 5) X) = 2 * length X div 5"
    using le by simp
  have l2: "length (drop (2 * length X div 5) X) = length X - 2 * length X div 5"
    by simp
  have tot: "(\<forall>xs. length (identity A xs) = length xs) \<and>
            (\<forall>xs. length (single_transform A xs) = length xs)
            \<longrightarrow> (\<exists>Y. AttackNet_forward A X = Inr Y \<and> length Y = length X)"
    using le by (simp add: fw)
  show ?thesis
    using fw l1 l2 lt tot by (simp only: append_take_drop_id simp_thms)
qed

theorem AttackNet_forward_single_witness:
  "noise_type \<lparr>noise_type = ''blur'', identity = id, gaussian_noise = map (\<lambda>x. x + 10),
      gaussian_blur = map (\<lambda>x. x + 20), resize = map (\<lambda>x. x + 30), jpeg = map (\<lambda>x. x + (40::nat))\<rparr>
     \<in> {''noise'', ''blur'', ''resize'', ''jpeg''}
   \<and> AttackNet_forward
       \<lparr>noise_type = ''blur'', identity = id, gaussian_noise = map (\<lambda>x. x + 10),
        gaussian_blur = map (\<lambda>x. x + 20), resize = map (\<lambda>x. x + 30), jpeg = map (\<lambda>x. x + 40)\<rparr>
       [0, 1, 2, 3, 4 :: nat]
     = Inr [0, 1, 22, 23, 24]
   \<and> length (take (2 * length [0, 1, 2, 3, 4 :: nat] div 5) [0, 1, 2, 3, 4 :: nat]) = 2
   \<and> length (drop (2 * length [0, 1, 2, 3, 4 :: nat] div 5) [0, 1, 2, 3, 4 :: nat]) = 3"
proof -
  let ?A = "\<lparr>noise_type = ''blur'', identity = id, gaussian_noise = map (\<lambda>x. x + 10),
      gaussian_blur = map (\<lambda>x. x + 20), resize = map (\<lambda>x. x + 30), jpeg = map (\<lambda>x. x + (40::nat))\<rparr>"
  let ?X = "[0, 1, 2, 3, 4 :: nat]"
  have h: "noise_type ?A \<in> {''noise'', ''blur'', ''resize'', ''jpeg''}" by simp
  have t: "single_transform ?A = map (\<lambda>x. x + 20)" by (simp add: single_transform_def)
  from AttackNet_forward_single[OF h, of ?X]
  have "AttackNet_forward ?A ?X = Inr [0, 1, 22, 23, 24]"
    and "length (take (2 * length ?X div 5) ?X) = 2"
    and "length (drop (2 * length ?X div 5) ?X) = 3"
    by (simp_all add: t)
  then show ?thesis using h by simp
qed

section \<open>The U-Net: shapes and structure\<close>

lemma conv_down: "c = cin \<Longrightarrow> 2 \<le> h \<Longrightarrow> 2 \<le> w \<Longrightarrow> even h \<Longrightarrow> even w \<Longrightarrow>
  conv2d_shape cin cout 4 2 (Suc 0) (b, c, h, w) = Inr (b, cout, h div 2, w div 2)"
  by (auto simp add: conv2d_shape_def elim!: evenE)

lemma conv_up: "c = cin \<Longrightarrow> 0 < h \<Longrightarrow> 0 < w \<Longrightarrow>
  conv_transpose2d_shape cin cout 4 2 (Suc 0) (b, c, h, w) = Inr (b, cout, 2 * h, 2 * w)"
  by (auto simp add: conv_transpose2d_shape_def algebra_simps)

lemma norm_ok: "c = n \<Longrightarrow> norm_shape nl n (b, c, h, w) = Inr (b, c, h, w)"
  by (simp add: norm_shape_def)

lemma cat1_same: "cat1 (b, c, h, w) (b, c', h, w) = Inr (b, c + c', h, w)"
  by (simp add: cat1_def)

lemma halves:
  assumes "0 < h" and "2 ^ Suc d dvd (h::nat)"
  shows "even h" and "2 \<le> h" and "0 < h div 2" and "2 ^ d dvd h div 2" and "2 * (h div 2) = h"
proof -
  from assms(2) obtain k where k: "h = 2 ^ Suc d * k" by (auto simp: dvd_def)
  with assms(1) have kp: "0 < k" by (cases k) auto
  from k show e: "even h" by simp
  from e assms(1) show "2 \<le> h" by (auto elim!: evenE)
  from k have h2: "h div 2 = 2 ^ d * k" by simp
  from h2 kp show "0 < h div 2" by simp
  from h2 show "2 ^ d dvd h div 2" by simp
  from k show "2 * (h div 2) = h" by simp
qed

lemma doubles_innermost: "doubles (innermost_of c i nl) c 1"
  unfolding doubles_def
proof (intro allI impI)
  fix b h w :: nat
  assume a: "0 < h \<and> 0 < w \<and> 2 ^ 1 dvd h \<and> 2 ^ 1 dvd w"
  then have h: "even h" "2 \<le> h" "0 < h div 2" "2 * (h div 2) = h"
    and w: "even w" "2 \<le> w" "0 < w div 2" "2 * (w div 2) = w"
    using halves[of h 0] halves[of w 0] by auto
  show "forward_block (innermost_of c i nl) (b, c, h, w) None = Inr (b, 2 * c, h, w)"
    by (simp add: innermost_of_def bind_Inr conv_down conv_up norm_ok cat1_same h w)
qed

lemma doubles_intermediate:
  assumes "doubles sub i d"
  shows "doubles (intermediate_of c i nl ud sub) c (Suc d)"
  unfolding doubles_def
proof (intro allI impI)
  fix b h w :: nat
  assume a: "0 < h \<and> 0 < w \<and> 2 ^ Suc d dvd h \<and> 2 ^ Suc d dvd w"
  then have h: "even h" "2 \<le> h" "0 < h div 2" "2 ^ d dvd h div 2" "2 * (h div 2) = h"
    and w: "even w" "2 \<le> w" "0 < w div 2" "2 ^ d dvd w div 2" "2 * (w div 2) = w"
    using halves[of h d] halves[of w d] by auto
  have s: "forward_block sub (b, i, h div 2, w div 2) None = Inr (b, 2 * i, h div 2, w div 2)"
    using assms h w by (simp add: doubles_def)
  show "forward_block (intermediate_of c i nl ud sub) (b, c, h, w) None = Inr (b, 2 * c, h, w)"
    by (simp add: intermediate_of_def bind_Inr conv_down conv_up norm_ok cat1_same h w s mult.commute)
qed

lemma doubles_funpow:
  assumes "doubles blk c d"
  shows "doubles ((intermediate_of c c nl ud ^^ n) blk) c (d + n)"
  by (induction n) (simp_all add: assms doubles_intermediate)

lemma forward_outermost:
  assumes "doubles sub i d" and "0 < h" and "0 < w" and "2 ^ Suc d dvd h" and "2 ^ Suc d dvd w"
  shows "forward_block (outermost_of outer_nc i input_nc nl f None red sub) (b, input_nc, h, w) None
           = Inr (b, outer_nc, h, w)"
proof -
  have h: "even h" "2 \<le> h" "0 < h div 2" "2 ^ d dvd h div 2" "2 * (h div 2) = h"
    and w: "even w" "2 \<le> w" "0 < w div 2" "2 ^ d dvd w div 2" "2 * (w div 2) = w"
    using halves[of h d] halves[of w d] assms by auto
  have s: "forward_block sub (b, i, h div 2, w div 2) None = Inr (b, 2 * i, h div 2, w div 2)"
    using assms(1) h w by (simp add: doubles_def)
  show ?thesis
    by (simp add: outermost_of_def bind_Inr conv_down conv_up h w s mult.commute)
qed

lemma forward_unet_of:
  assumes "0 < h" and "0 < w" and "2 ^ (5 + nat (num_downs - 5)) dvd h"
    and "2 ^ (5 + nat (num_downs - 5)) dvd w"
  shows "forward_block (unet_of input_nc output_nc num_downs nhf nl ud f None red)
           (b, input_nc, h, w) None = Inr (b, output_nc, h, w)"
proof -
  let ?n = "nat (num_downs - 5)"
  have "doubles ((intermediate_of (nhf * 8) (nhf * 8) nl ud ^^ ?n) (innermost_of (nhf * 8) (nhf * 8) nl))
          (nhf * 8) (1 + ?n)"
    by (rule doubles_funpow[OF doubles_innermost])
  then have "doubles (intermediate_of (nhf * 4) (nhf * 8) nl False
      ((intermediate_of (nhf * 8) (nhf * 8) nl ud ^^ ?n) (innermost_of (nhf * 8) (nhf * 8) nl)))
      (nhf * 4) (Suc (1 + ?n))"
    by (rule doubles_intermediate)
  then have "doubles (intermediate_of (nhf * 2) (nhf * 4) nl False (intermediate_of (nhf * 4) (nhf * 8) nl False
      ((intermediate_of (nhf * 8) (nhf * 8) nl ud ^^ ?n) (innermost_of (nhf * 8) (nhf * 8) nl))))
      (nhf * 2) (Suc (Suc (1 + ?n)))"
    by (rule doubles_intermediate)
  then have d: "doubles (intermediate_of nhf (nhf * 2) nl False (intermediate_of (nhf * 2) (nhf * 4) nl False (intermediate_of (nhf * 4) (nhf * 8) nl False
      ((intermediate_of (nhf * 8) (nhf * 8) nl ud ^^ ?n) (innermost_of (nhf * 8) (nhf * 8) nl)))))
      nhf (Suc (Suc (Suc (1 + ?n))))"
    by (rule doubles_intermediate)
  have e: "Suc (Suc (Suc (Suc (1 + ?n)))) = 5 + ?n" by simp
  show ?thesis
    unfolding unet_of_def
    by (rule forward_outermost[OF d assms(1,2)]) (simp_all only: e assms)
qed

lemma init_outermost_TypeError:
  "UnetSkipConnectionBlock_init outer_nc inner_nc inp sub True inn nl ud f (Some kl) None =
     Inl (TypeError ''unsupported operand type(s) for ** or pow()'')"
  by (simp add: UnetSkipConnectionBlock_init_def bind_Inl Let_def)

lemma UnetGenerator_init_Inr_iff:
  "UnetGenerator_init input_nc output_nc num_downs nhf norm_type use_dropout output_function key_len redundance = Inr G
   \<longleftrightarrow> (\<exists>nl. get_norm_layer norm_type = Inr nl \<and> (key_len = None \<or> redundance \<noteq> None)
          \<and> (output_function = ''tanh'' \<or> output_function = ''sigmoid'')
          \<and> G = \<lparr>factor = (if output_function = ''tanh'' then 10 / 255 else 1),
                  model = unet_of input_nc output_nc num_downs nhf nl use_dropout output_function key_len redundance\<rparr>)"
proof (cases "get_norm_layer norm_type")
  case (Inl e)
  then show ?thesis by (simp add: UnetGenerator_init_def bind_Inl)
next
  case (Inr nl)
  show ?thesis
  proof (cases "key_len = None \<or> redundance \<noteq> None")
    case True
    show ?thesis
      using True by (auto simp add: UnetGenerator_init_eq[OF Inr True] Inr)
  next
    case False
    then obtain kl where k: "key_len = Some kl" "redundance = None" by auto
    have "UnetGenerator_init input_nc output_nc num_downs nhf norm_type use_dropout output_function key_len redundance
            = Inl (TypeError ''unsupported operand type(s) for ** or pow()'')"
      by (simp add: UnetGenerator_init_def Inr bind_Inr bind_Inl init_innermost init_intermediate
          intermediate_eq k init_outermost_TypeError)
    then show ?thesis using False by simp
  qed
qed

lemma blocks_innermost_of: "blocks (innermost_of c i nl) = [innermost_of c i nl]"
  by (simp add: innermost_of_def)

lemma blocks_intermediate_of:
  "blocks (intermediate_of c i nl ud sub) = intermediate_of c i nl ud sub # blocks sub"
  by (simp add: intermediate_of_def)

lemma blocks_outermost_of:
  "blocks (outermost_of c i inp nl f kl red sub) = outermost_of c i inp nl f kl red sub # blocks sub"
  by (simp add: outermost_of_def)

lemma innermost_block_simps:
  "innermost_block (innermost_of c i nl)"
  "\<not> innermost_block (intermediate_of c i nl ud sub)"
  "\<not> innermost_block (outermost_of c i inp nl f kl red sub)"
  by (simp_all add: innermost_block_def innermost_of_def intermediate_of_def outermost_of_def)

lemma outmost_simps:
  "\<not> outmost (innermost_of c i nl)"
  "\<not> outmost (intermediate_of c i nl ud sub)"
  "outmost (outermost_of c i inp nl f kl red sub)"
  by (simp_all add: innermost_of_def intermediate_of_def outermost_of_def)

lemma widths_simps:
  "widths (innermost_of c i nl) = ([c], [i])"
  "widths (intermediate_of c i nl ud sub) = ([c], [i])"
  "widths (outermost_of c i inp nl f kl red sub) = ([c], [i])"
  by (simp_all add: widths_def innermost_of_def intermediate_of_def outermost_of_def)

lemma blocks_nonempty: "blocks blk \<noteq> []"
  by (cases blk) simp

lemma funpow_blocks:
  "length (blocks ((intermediate_of c i nl ud ^^ n) blk)) = n + length (blocks blk)"
  "filter innermost_block (blocks ((intermediate_of c i nl ud ^^ n) blk)) = filter innermost_block (blocks blk)"
  "filter outmost (blocks ((intermediate_of c i nl ud ^^ n) blk)) = filter outmost (blocks blk)"
  "map widths (blocks ((intermediate_of c i nl ud ^^ n) blk)) = replicate n ([c], [i]) @ map widths (blocks blk)"
  "last (blocks ((intermediate_of c i nl ud ^^ n) blk)) = last (blocks blk)"
  by (induction n)
     (simp_all add: blocks_intermediate_of innermost_block_simps outmost_simps widths_simps blocks_nonempty)

lemma unet_of_structure:
  assumes U: "U = unet_of input_nc output_nc num_downs nhf nl ud f kl red"
  shows "length (blocks U) = 5 + nat (num_downs - 5)"
    and "filter innermost_block (blocks U) = [innermost_of (nhf * 8) (nhf * 8) nl]"
    and "last (blocks U) = innermost_of (nhf * 8) (nhf * 8) nl"
    and "filter outmost (blocks U) = [U]"
    and "hd (blocks U) = U"
    and "map widths (blocks U) =
           [([output_nc], [nhf]), ([nhf], [nhf * 2]), ([nhf * 2], [nhf * 4]), ([nhf * 4], [nhf * 8])]
           @ replicate (nat (num_downs - 5)) ([nhf * 8], [nhf * 8]) @ [([nhf * 8], [nhf * 8])]"
  unfolding U unet_of_def
  by (simp_all add: blocks_outermost_of blocks_intermediate_of blocks_innermost_of funpow_blocks
      innermost_block_simps outmost_simps widths_simps blocks_nonempty)

lemma key_tile_closed:
  "key_tile enc redundance (b, c, h, w) klen =
     (case enc of
        None \<Rightarrow> Inl (TypeError ''NoneType object is not callable'')
      | Some (i, out) \<Rightarrow>
          if klen \<noteq> i then Inl (RuntimeError ''mat1 and mat2 shapes cannot be multiplied'')
          else (case redundance of
                  None \<Rightarrow> Inl (TypeError ''view(): argument size must be tuple of ints'')
                | Some r \<Rightarrow>
                    if out \<noteq> c * r * r
                      then Inl (RuntimeError ''shape is invalid for input size'')
                    else if r = 0 then Inl ZeroDivisionError
                    else Inr (b, c, r * (h div r), r * (w div r))))"
  by (simp add: key_tile_def linear_shape_def view_shape_def floordiv_def repeat_shape_def
      bind_def split: option.splits)

lemma key_tile_ok:
  assumes "0 < r" and "r dvd h" and "r dvd w"
  shows "key_tile (Some (L, r ^ 2 * c)) (Some r) (b, c, h, w) L = Inr (b, c, h, w)"
  using assms by (simp add: key_tile_closed power2_eq_square mult.assoc mult.left_commute mult.commute)

lemma key_inject_ok:
  assumes "0 < r" and "r dvd h" and "r dvd w"
  shows "key_inject (Some (L, r ^ 2 * c)) (Some r) (b, c, h, w) L = Inr (b, 2 * c, h, w)"
  by (simp add: key_inject_def key_tile_ok[OF assms] bind_Inr cat1_same)

lemma forward_outermost_key:
  assumes "doubles sub i d" and "0 < h" and "0 < w" and "2 ^ Suc d dvd h" and "2 ^ Suc d dvd w"
    and "0 < r" and "r dvd h" and "r dvd w"
  shows "forward_block (outermost_of outer_nc i input_nc nl f (Some L) (Some r) sub)
           (b, input_nc, h, w) (Some L) = Inr (b, outer_nc, h, w)"
proof -
  have h: "even h" "2 \<le> h" "0 < h div 2" "2 ^ d dvd h div 2" "2 * (h div 2) = h"
    and w: "even w" "2 \<le> w" "0 < w div 2" "2 ^ d dvd w div 2" "2 * (w div 2) = w"
    using halves[of h d] halves[of w d] assms by auto
  have s: "forward_block sub (b, i, h div 2, w div 2) None = Inr (b, 2 * i, h div 2, w div 2)"
    using assms(1) h w by (simp add: doubles_def)
  have k: "key_inject (Some (L, r ^ 2 * input_nc)) (Some r) (b, input_nc, h, w) L
             = Inr (b, 2 * input_nc, h, w)"
    by (rule key_inject_ok[OF assms(6,7,8)])
  have k2: "key_inject (Some (L, input_nc * r ^ 2)) (Some r) (b, input_nc, h, w) L
             = Inr (b, input_nc * 2, h, w)"
    using k by (simp add: mult.commute)
  show ?thesis
    by (simp add: outermost_of_def bind_Inr conv_down conv_up h w s k2 mult.commute)
qed

lemma doubles_unet_inner:
  "doubles (intermediate_of nhf (nhf * 2) nl False (intermediate_of (nhf * 2) (nhf * 4) nl False
      (intermediate_of (nhf * 4) (nhf * 8) nl False
      ((intermediate_of (nhf * 8) (nhf * 8) nl ud ^^ n) (innermost_of (nhf * 8) (nhf * 8) nl)))))
      nhf (4 + n)"
proof -
  have "doubles ((intermediate_of (nhf * 8) (nhf * 8) nl ud ^^ n) (innermost_of (nhf * 8) (nhf * 8) nl))
          (nhf * 8) (1 + n)"
    by (rule doubles_funpow[OF doubles_innermost])
  then have "doubles (intermediate_of (nhf * 4) (nhf * 8) nl False
      ((intermediate_of (nhf * 8) (nhf * 8) nl ud ^^ n) (innermost_of (nhf * 8) (nhf * 8) nl)))
      (nhf * 4) (Suc (1 + n))"
    by (rule doubles_intermediate)
  then have "doubles (intermediate_of (nhf * 2) (nhf * 4) nl False (intermediate_of (nhf * 4) (nhf * 8) nl False
      ((intermediate_of (nhf * 8) (nhf * 8) nl ud ^^ n) (innermost_of (nhf * 8) (nhf * 8) nl))))
      (nhf * 2) (Suc (Suc (1 + n)))"
    by (rule doubles_intermediate)
  then have d: "doubles (intermediate_of nhf (nhf * 2) nl False (intermediate_of (nhf * 2) (nhf * 4) nl False (intermediate_of (nhf * 4) (nhf * 8) nl False
      ((intermediate_of (nhf * 8) (nhf * 8) nl ud ^^ n) (innermost_of (nhf * 8) (nhf * 8) nl)))))
      nhf (Suc (Suc (Suc (1 + n))))"
    by (rule doubles_intermediate)
  have e: "Suc (Suc (Suc (1 + n))) = 4 + n" by simp
  from d show ?thesis by (simp only: e)
qed

lemma forward_unet_of_key:
  assumes "0 < h" and "0 < w" and "2 ^ (5 + nat (num_downs - 5)) dvd h"
    and "2 ^ (5 + nat (num_downs - 5)) dvd w" and "0 < r" and "r dvd h" and "r dvd w"
  shows "forward_block (unet_of input_nc output_nc num_downs nhf nl ud f (Some L) (Some r))
           (b, input_nc, h, w) (Some L) = Inr (b, output_nc, h, w)"
proof -
  have e: "Suc (4 + nat (num_downs - 5)) = 5 + nat (num_downs - 5)" by simp
  show ?thesis
    unfolding unet_of_def option.sel
    by (rule forward_outermost_key[OF doubles_unet_inner assms(1,2) _ _ assms(5,6,7)])
       (simp_all only: e assms)
qed

text \<open>
  The shape of the output, for every \<open>num_downs\<close>: the network has
  \<open>5 + nat (num_downs - 5)\<close> blocks, each of which halves the sides on the way down and
  doubles them on the way up, so an input \<open>(B, input_nc, H, H)\<close> whose side \<open>H\<close> is a
  positive multiple of \<open>2 ^ (5 + nat (num_downs - 5))\<close> gives an output
  \<open>(B, output_nc, H, H)\<close>, without a key, and with a key of the configured length when the
  redundance size divides \<open>H\<close>. For \<open>num_downs \<ge> 5\<close> the exponent is \<open>num_downs\<close>.
\<close>

lemma UnetGenerator_output_shape:
  assumes "UnetGenerator_init input_nc output_nc num_downs nhf norm_type use_dropout output_function
             key_len redundance = Inr G"
    and "0 < H"
    and "2 ^ nat (max 5 num_downs) dvd H"
    and "key_len = None \<and> k = None \<or>
         (\<exists>L r. key_len = Some L \<and> redundance = Some r \<and> k = Some L \<and> 0 < r \<and> r dvd H)"
  shows "UnetGenerator_forward_shape G (B, input_nc, H, H) k = Inr (B, output_nc, H, H)"
proof -
  from assms(1) obtain nl where
    G: "model G = unet_of input_nc output_nc num_downs nhf nl use_dropout output_function key_len redundance"
    by (auto simp add: UnetGenerator_init_Inr_iff)
  have m: "nat (max 5 num_downs) = 5 + nat (num_downs - 5)" by simp
  have d: "2 ^ (5 + nat (num_downs - 5)) dvd H" using assms(3) by (simp only: m)
  from assms(4) show ?thesis
  proof
    assume "key_len = None \<and> k = None"
    then show ?thesis
      by (simp add: UnetGenerator_forward_shape_def G forward_unet_of[OF assms(2) assms(2) d d])
  next
    assume "\<exists>L r. key_len = Some L \<and> redundance = Some r \<and> k = Some L \<and> 0 < r \<and> r dvd H"
    then obtain L r where k: "key_len = Some L" "redundance = Some r" "k = Some L" "0 < r" "r dvd H"
      by blast
    show ?thesis
      by (simp add: UnetGenerator_forward_shape_def G k
          forward_unet_of_key[OF assms(2) assms(2) d d k(4) k(5) k(5)])
  qed
qed

lemma UnetGenerator_output_shape_example:
  "\<exists>G. UnetGenerator_init 3 3 7 64 ''none'' False ''sigmoid'' (Some 256) (Some 16) = Inr G
      \<and> UnetGenerator_forward_shape G (10, 3, 256, 256) (Some 256) = Inr (10, 3, 256, 256)"
proof -
  obtain G where G: "UnetGenerator_init 3 3 7 64 ''none'' False ''sigmoid'' (Some 256) (Some 16) = Inr G"
    by (simp add: UnetGenerator_init_Inr_iff get_norm_layer_Inr)
  have h: "(0::nat) < 256" by simp
  have d: "(2::nat) ^ nat (max 5 7) dvd 256" by simp
  have k: "(Some (256::nat)) = None \<and> Some (256::nat) = None \<or>
           (\<exists>L r. Some (256::nat) = Some L \<and> Some (16::nat) = Some r \<and> Some (256::nat) = Some L
              \<and> 0 < r \<and> r dvd (256::nat))"
    by simp
  from UnetGenerator_output_shape[OF G h d k, of 10] G show ?thesis by blast
qed

lemma UnetGenerator_output_shape_ge5:
  assumes "UnetGenerator_init input_nc output_nc num_downs nhf norm_type use_dropout output_function
             None redundance = Inr G"
    and "5 \<le> num_downs" and "0 < H" and "2 ^ nat num_downs dvd H"
  shows "UnetGenerator_forward_shape G (B, input_nc, H, H) None = Inr (B, output_nc, H, H)"
proof -
  from assms(2) have m: "max 5 num_downs = num_downs" by simp
  show ?thesis
    by (rule UnetGenerator_output_shape[OF assms(1) assms(3)]) (simp_all add: m assms(4))
qed

text \<open>
  C6. For any input of shape \<open>(B, C, H, W)\<close> with \<open>H = W\<close> and \<open>H\<close> divisible by
  \<open>2 ^ num_downs\<close>, the output of the network should have the shape of the input. The
  docstring of \<^verbatim>\<open>UnetGenerator.__init__\<close> says the same of \<open>num_downs\<close> (\<^verbatim>\<open>the number of
  downsamplings in UNet\<close>). For \<open>num_downs \<ge> 5\<close> the code does this (lemma
  \<open>UnetGenerator_output_shape_ge5\<close>). For \<open>num_downs = 3\<close> it does not: the constructor
  still builds five blocks, and an input of shape \<open>(10, 6, 8, 8)\<close>, whose side is
  \<open>2 ^ 3\<close>, reaches the fourth convolution with a side of 1, where \<^verbatim>\<open>Conv2d\<close> with a
  kernel of 4 and a padding of 1 raises.
\<close>

theorem UnetGenerator_output_shape_num_downs_3:
  "\<exists>G. UnetGenerator_init 6 3 3 64 ''none'' False ''sigmoid'' None None = Inr G
      \<and> (2::nat) ^ nat 3 dvd 8
      \<and> UnetGenerator_forward_shape G (10, 6, 8, 8) None
          = Inl (RuntimeError ''Kernel size can't be greater than actual input size'')"
proof -
  obtain G where G: "UnetGenerator_init 6 3 3 64 ''none'' False ''sigmoid'' None None = Inr G"
    by (simp add: UnetGenerator_init_Inr_iff get_norm_layer_Inr)
  then have m: "model G = unet_of 6 3 3 64 Identity False ''sigmoid'' None None"
    by (auto simp add: UnetGenerator_init_Inr_iff get_norm_layer_Inr)
  have "UnetGenerator_forward_shape G (10, 6, 8, 8) None
          = Inl (RuntimeError ''Kernel size can't be greater than actual input size'')"
    by (simp add: UnetGenerator_forward_shape_def m unet_of_def outermost_of_def intermediate_of_def
        innermost_of_def bind_def conv2d_shape_def conv_transpose2d_shape_def norm_shape_def
        cat1_def)
  with G show ?thesis by simp
qed

text \<open>
  The structure of a network built by \<^verbatim>\<open>UnetGenerator.__init__\<close>, for every \<open>num_downs\<close>:
  exactly one innermost block (the last of the chain, without a submodule), exactly one
  outermost block (the first), and between them, from the outside in, three blocks whose
  widths double from \<open>nhf\<close> to \<open>nhf * 8\<close> and \<open>nat (num_downs - 5)\<close> blocks of constant
  width \<open>nhf * 8\<close>; \<open>5 + nat (num_downs - 5)\<close> blocks in all, which is \<open>num_downs\<close> when
  \<open>num_downs \<ge> 5\<close>.
\<close>

lemma UnetGenerator_structure:
  assumes "UnetGenerator_init input_nc output_nc num_downs nhf norm_type use_dropout output_function
             key_len redundance = Inr G"
  shows "length (filter innermost_block (blocks (model G))) = 1
       \<and> innermost_block (last (blocks (model G)))
       \<and> length (filter outmost (blocks (model G))) = 1
       \<and> outmost (hd (blocks (model G)))
       \<and> map widths (blocks (model G)) =
           [([output_nc], [nhf])]
           @ [([nhf], [nhf * 2]), ([nhf * 2], [nhf * 4]), ([nhf * 4], [nhf * 8])]
           @ replicate (nat (num_downs - 5)) ([nhf * 8], [nhf * 8])
           @ [([nhf * 8], [nhf * 8])]
       \<and> length (blocks (model G)) = 5 + nat (num_downs - 5)
       \<and> (5 \<le> num_downs \<longrightarrow> int (length (blocks (model G))) = num_downs)"
proof -
  from assms obtain nl where
    G: "model G = unet_of input_nc output_nc num_downs nhf nl use_dropout output_function key_len redundance"
    by (auto simp add: UnetGenerator_init_Inr_iff)
  note u = unet_of_structure[OF G]
  have o: "outmost (model G)" by (simp add: G unet_of_def outmost_simps)
  show ?thesis
    by (simp add: u innermost_block_simps o)
qed

lemma UnetGenerator_structure_example:
  "\<exists>G. UnetGenerator_init 6 3 7 64 ''batch'' True ''tanh'' None None = Inr G
      \<and> length (filter innermost_block (blocks (model G))) = 1
      \<and> length (filter outmost (blocks (model G))) = 1
      \<and> map widths (blocks (model G)) =
           [([3], [64]), ([64], [128]), ([128], [256]), ([256], [512]), ([512], [512]),
            ([512], [512]), ([512], [512])]
      \<and> length (blocks (model G)) = 7"
proof -
  obtain G where G: "UnetGenerator_init 6 3 7 64 ''batch'' True ''tanh'' None None = Inr G"
    by (simp add: UnetGenerator_init_Inr_iff get_norm_layer_Inr)
  have r: "replicate 2 ([512::nat], [512::nat]) = [([512], [512]), ([512], [512])]"
    by (simp add: numeral_2_eq_2)
  from UnetGenerator_structure[OF G] G show ?thesis
    by (simp add: r)
qed

text \<open>
  C8. A network built with the depth \<open>num_downs\<close> should hold one innermost block,
  \<open>num_downs - 5\<close> intermediate blocks of constant width, three blocks that halve the
  width and one outermost block, \<open>num_downs\<close> blocks in all; the docstring of
  \<^verbatim>\<open>UnetGenerator.__init__\<close> calls \<open>num_downs\<close> \<^verbatim>\<open>the number of downsamplings in UNet\<close>. For
  \<open>num_downs \<ge> 5\<close> the code builds this (lemma \<open>UnetGenerator_structure\<close>). For
  \<open>num_downs = 3\<close> it does not: the innermost block, the three halving blocks and the
  outermost block are built whatever \<open>num_downs\<close> is, so the network has 5 blocks, not 3.
\<close>

theorem UnetGenerator_structure_num_downs_3:
  "\<exists>G. UnetGenerator_init 6 3 3 64 ''none'' False ''sigmoid'' None None = Inr G
      \<and> length (blocks (model G)) = 5
      \<and> int (length (blocks (model G))) \<noteq> 3
      \<and> map widths (blocks (model G)) =
           [([3], [64]), ([64], [128]), ([128], [256]), ([256], [512]), ([512], [512])]"
proof -
  obtain G where G: "UnetGenerator_init 6 3 3 64 ''none'' False ''sigmoid'' None None = Inr G"
    by (simp add: UnetGenerator_init_Inr_iff get_norm_layer_Inr)
  then have m: "model G = unet_of 6 3 3 64 Identity False ''sigmoid'' None None"
    by (auto simp add: UnetGenerator_init_Inr_iff get_norm_layer_Inr)
  have "length (blocks (model G)) = 5"
    by (simp add: unet_of_structure(1)[OF m])
  moreover have "map widths (blocks (model G)) =
           [([3], [64]), ([64], [128]), ([128], [256]), ([256], [512]), ([512], [512])]"
    by (simp add: unet_of_structure(6)[OF m])
  ultimately show ?thesis using G by simp
qed

text \<open>
  C9. A network that \<^verbatim>\<open>UnetGenerator.__init__\<close> returns has the factor \<open>10 / 255\<close> when its
  output function is \<^verbatim>\<open>'tanh'\<close> and 1 when it is \<^verbatim>\<open>'sigmoid'\<close> (no other output function
  gives a network), and \<^verbatim>\<open>forward\<close> returns the output of the underlying model with every
  entry multiplied by the factor (and the model's exception when it raises one).
\<close>

theorem UnetGenerator_forward_factor:
  assumes "UnetGenerator_init input_nc output_nc num_downs nhf norm_type use_dropout output_function
             key_len redundance = Inr G"
  shows "(output_function = ''tanh'' \<and> factor G = 10 / 255
          \<or> output_function = ''sigmoid'' \<and> factor G = 1)
       \<and> UnetGenerator_forward G run X k =
           (case run (model G) X k of
              Inl e \<Rightarrow> Inl e
            | Inr Y \<Rightarrow> Inr (map (map (map (map (\<lambda>v. factor G * v)))) Y))"
proof -
  from assms have "output_function = ''tanh'' \<and> factor G = 10 / 255
          \<or> output_function = ''sigmoid'' \<and> factor G = 1"
    by (auto simp add: UnetGenerator_init_Inr_iff)
  moreover have "UnetGenerator_forward G run X k =
           (case run (model G) X k of
              Inl e \<Rightarrow> Inl e
            | Inr Y \<Rightarrow> Inr (map (map (map (map (\<lambda>v. factor G * v)))) Y))"
    by (simp add: UnetGenerator_forward_def bind_def smul_def split: sum.splits)
  ultimately show ?thesis by simp
qed

theorem UnetGenerator_forward_factor_witness:
  "\<exists>G. UnetGenerator_init 6 3 7 64 ''none'' False ''tanh'' None None = Inr G
      \<and> factor G = 10 / 255
      \<and> UnetGenerator_forward G (\<lambda>blk X k. Inr X) [[[[51, 255]]]] None = Inr [[[[2, 10]]]]"
proof -
  obtain G where G: "UnetGenerator_init 6 3 7 64 ''none'' False ''tanh'' None None = Inr G"
    by (simp add: UnetGenerator_init_Inr_iff get_norm_layer_Inr)
  from UnetGenerator_forward_factor[OF G, of "\<lambda>blk X k. Inr X" "[[[[51, 255]]]]" None] G
  show ?thesis by auto
qed

section \<open>Key injection\<close>

lemma key_tile_Inr:
  "key_tile enc red (b, c, h, w) klen = Inr y \<Longrightarrow>
     \<exists>r out. red = Some r \<and> enc = Some (klen, out) \<and> 0 < r \<and> y = (b, c, r * (h div r), r * (w div r))"
  by (auto simp add: key_tile_closed split: option.splits if_splits)

lemma key_inject_not_dvd:
  assumes "\<not> (r dvd h \<and> r dvd w)"
  shows "\<exists>e. key_inject enc (Some r) (b, c, h, w) klen = Inl e"
proof (cases "key_tile enc (Some r) (b, c, h, w) klen")
  case (Inl e)
  then show ?thesis by (simp add: key_inject_def bind_Inl)
next
  case (Inr y)
  from key_tile_Inr[OF Inr] have r: "0 < r" and y: "y = (b, c, r * (h div r), r * (w div r))"
    by auto
  from assms have "r * (h div r) \<noteq> h \<or> r * (w div r) \<noteq> w"
    by (metis dvd_triv_left)
  then show ?thesis
    by (auto simp add: key_inject_def Inr bind_Inr y cat1_def)
qed

lemma key_inject_size_error:
  assumes "0 < r" and "\<not> (r dvd h \<and> r dvd w)"
  shows "key_inject (Some (L, r ^ 2 * c)) (Some r) (b, c, h, w) L
           = Inl (RuntimeError ''Sizes of tensors must match except in dimension 1'')"
proof -
  have t: "key_tile (Some (L, r ^ 2 * c)) (Some r) (b, c, h, w) L
             = Inr (b, c, r * (h div r), r * (w div r))"
    using assms(1) by (simp add: key_tile_closed power2_eq_square mult.assoc mult.left_commute mult.commute)
  from assms(2) have "r * (h div r) \<noteq> h \<or> r * (w div r) \<noteq> w"
    by (metis dvd_triv_left)
  then show ?thesis
    by (auto simp add: key_inject_def t bind_Inr cat1_def)
qed

lemma RevealNet_init_encoder:
  assumes "RevealNet_init input_nc output_nc nrf norm_type f (Some L) (Some r) = Inr R"
  shows "encoder R = Some (L, r ^ 2 * input_nc)" and "redundance_size R = Some r"
    and "conv1 R = Conv2d (input_nc * 2) nrf 3 1 1 True"
  using assms by (auto simp add: RevealNet_init_def bind_eq_Inr split: if_splits)

lemma conv_same: "c = cin \<Longrightarrow> 0 < h \<Longrightarrow> 0 < w \<Longrightarrow>
  conv2d_shape cin cout 3 (Suc 0) (Suc 0) (b, c, h, w) = Inr (b, cout, h, w)"
  by (auto simp add: conv2d_shape_def)

lemma RevealNet_forward_key_ok:
  assumes "RevealNet_init input_nc output_nc nrf norm_type f (Some L) (Some r) = Inr R"
    and "0 < r" and "r dvd h" and "r dvd w" and "0 < h" and "0 < w"
  shows "RevealNet_forward_shape R (b, input_nc, h, w) (Some L) = Inr (b, output_nc, h, w)"
proof -
  from assms(1) obtain nl where R:
    "R = \<lparr>redundance_size = Some r, encoder = Some (L, r ^ 2 * input_nc),
          conv1 = Conv2d (input_nc * 2) nrf 3 1 1 True,
          conv2 = Conv2d nrf (nrf * 2) 3 1 1 True,
          conv3 = Conv2d (nrf * 2) (nrf * 4) 3 1 1 True,
          conv4 = Conv2d (nrf * 4) (nrf * 2) 3 1 1 True,
          conv5 = Conv2d (nrf * 2) nrf 3 1 1 True,
          conv6 = Conv2d nrf output_nc 3 1 1 True,
          output_act = Sigmoid, relu = ReLU,
          norm1 = Norm nl nrf, norm2 = Norm nl (nrf * 2),
          norm3 = Norm nl (nrf * 4), norm4 = Norm nl (nrf * 2),
          norm5 = Norm nl nrf\<rparr>"
    by (auto simp add: RevealNet_init_def bind_eq_Inr split: if_splits)
  have k: "key_inject (Some (L, r ^ 2 * input_nc)) (Some r) (b, input_nc, h, w) L
             = Inr (b, input_nc * 2, h, w)"
    using key_inject_ok[OF assms(2,3,4)] by (simp add: mult.commute)
  show ?thesis
    by (simp add: RevealNet_forward_shape_def R k bind_Inr conv_same norm_ok assms(5,6))
qed

lemma key_tile_Inr_iff:
  "key_tile enc red (b, c, h, w) klen = Inr y \<longleftrightarrow>
     (\<exists>r. red = Some r \<and> enc = Some (klen, c * r * r) \<and> 0 < r
          \<and> y = (b, c, r * (h div r), r * (w div r)))"
  by (auto simp add: key_tile_closed split: option.splits if_splits)

lemma mult_div_eq_iff: "0 < (r::nat) \<Longrightarrow> r * (h div r) = h \<longleftrightarrow> r dvd h"
  by (metis dvd_mult_div_cancel dvd_triv_left)

lemma key_inject_Inr_iff:
  "key_inject enc red (b, c, h, w) klen = Inr y \<longleftrightarrow>
     (\<exists>r. red = Some r \<and> enc = Some (klen, c * r * r) \<and> 0 < r \<and> r dvd h \<and> r dvd w
          \<and> y = (b, 2 * c, h, w))"
proof
  assume "key_inject enc red (b, c, h, w) klen = Inr y"
  then obtain t where t: "key_tile enc red (b, c, h, w) klen = Inr t"
    and c: "cat1 (b, c, h, w) t = Inr y"
    by (auto simp add: key_inject_def bind_eq_Inr)
  from t obtain r where r: "red = Some r" "enc = Some (klen, c * r * r)" "0 < r"
    "t = (b, c, r * (h div r), r * (w div r))"
    by (auto simp add: key_tile_Inr_iff)
  from c r(4) have "r * (h div r) = h" "r * (w div r) = w" and y: "y = (b, c + c, h, w)"
    by (auto simp add: cat1_def split: if_splits)
  with r(3) have "r dvd h" "r dvd w" by (simp_all add: mult_div_eq_iff)
  with r y show "\<exists>r. red = Some r \<and> enc = Some (klen, c * r * r) \<and> 0 < r \<and> r dvd h \<and> r dvd w
          \<and> y = (b, 2 * c, h, w)"
    by simp
next
  assume "\<exists>r. red = Some r \<and> enc = Some (klen, c * r * r) \<and> 0 < r \<and> r dvd h \<and> r dvd w
          \<and> y = (b, 2 * c, h, w)"
  then obtain r where r: "red = Some r" "enc = Some (klen, c * r * r)" "0 < r" "r dvd h" "r dvd w"
    "y = (b, 2 * c, h, w)" by blast
  have "key_tile enc red (b, c, h, w) klen = Inr (b, c, h, w)"
    using r by (simp add: key_tile_Inr_iff)
  then show "key_inject enc red (b, c, h, w) klen = Inr y"
    by (simp add: key_inject_def bind_Inr cat1_same r(6))
qed

lemma projection_shape:
  "linear_shape (Some (L, r ^ 2 * c)) L = Inr (r ^ 2 * c)"
  "view_shape (r ^ 2 * c) (1, c, r, r) = Inr (1, c, r, r)"
  "repeat_shape (1, c, r, r) (b, 1, h div r, w div r) = (b, c, r * (h div r), r * (w div r))"
  by (simp_all add: linear_shape_def view_shape_def repeat_shape_def power2_eq_square
      mult.assoc mult.left_commute mult.commute)

lemma key_tile_general:
  assumes "0 < r"
  shows "key_tile (Some (L, r ^ 2 * c)) (Some r) (b, c, h, w) L
           = Inr (repeat_shape (1, c, r, r) (b, 1, h div r, w div r))"
  using assms
  by (simp add: key_tile_closed repeat_shape_def power2_eq_square mult.assoc mult.left_commute
      mult.commute)

lemma key_tile_wrong_length:
  "klen \<noteq> L \<Longrightarrow> key_tile (Some (L, out)) red (b, c, h, w) klen
      = Inl (RuntimeError ''mat1 and mat2 shapes cannot be multiplied'')"
  by (simp add: key_tile_closed)

lemma key_tile_wrong_size:
  "out \<noteq> c * r * r \<Longrightarrow> key_tile (Some (L, out)) (Some r) (b, c, h, w) L
      = Inl (RuntimeError ''shape is invalid for input size'')"
  by (simp add: key_tile_closed)

lemma init_outermost_encoder:
  assumes "UnetSkipConnectionBlock_init outer_nc inner_nc (Some input_nc) sub True inn nl ud f
             (Some L) (Some r) = Inr blk"
  shows "outmost blk \<and> blk_encoder blk = Some (L, r ^ 2 * input_nc)
         \<and> blk_redundance_size blk = Some r"
  using assms
  by (auto simp add: UnetSkipConnectionBlock_init_def bind_eq_Inr Let_def Sequential_def
      split: if_splits option.splits)

text \<open>
  C7. The key tile of \<^verbatim>\<open>UnetSkipConnectionBlock.forward\<close> and \<^verbatim>\<open>RevealNet.forward\<close>, for a
  key of length \<open>L\<close>, a redundance size \<open>r\<close> and an input of shape \<open>(b, c, h, w)\<close>, with
  the encoder \<^verbatim>\<open>nn.Linear(L, r**2 * c)\<close> that both constructors build:
  \<^item> the encoder maps the key to \<open>r\<^sup>2 * c\<close> numbers, which the view shapes as
    \<open>(1, c, r, r)\<close>;
  \<^item> the repeat, \<open>b\<close> times over the batch and \<open>h div r\<close> by \<open>w div r\<close> times over the
    rows and columns, gives the tile \<open>(b, c, r * (h div r), r * (w div r))\<close>, for every
    positive \<open>r\<close>;
  \<^item> when \<open>r\<close> divides \<open>h\<close> and \<open>w\<close> the tile has the shape \<open>(b, c, h, w)\<close> of the input and
    is concatenated onto it along the channels, giving \<open>(b, 2 * c, h, w)\<close>;
  \<^item> when \<open>r\<close> is positive and does not divide \<open>h\<close> or \<open>w\<close>, the concatenation raises the
    size error of \<^verbatim>\<open>torch.cat\<close>;
  \<^item> a key of another length than the encoder's input, and an encoder whose output is not
    \<open>c * r * r\<close> numbers, raise the errors of \<^verbatim>\<open>nn.Linear\<close> and of \<^verbatim>\<open>view\<close>;
  \<^item> for any encoder and redundance size, the tile and the concatenation succeed in
    exactly the cases above, with exactly these shapes;
  \<^item> whatever the encoder and the key, when \<open>r\<close> does not divide \<open>h\<close> or \<open>w\<close> the forward
    pass of an outermost block and of a reveal network with that redundance size ends in
    an exception and gives no output;
  \<^item> the outermost block and the reveal network built for a key length \<open>L\<close> and a
    redundance size \<open>r\<close> hold this encoder, and the reveal network then maps
    \<open>(b, c, h, w)\<close> with a key of length \<open>L\<close> to \<open>(b, output_nc, h, w)\<close>.
\<close>

theorem key_tile_contract:
  "linear_shape (Some (L, r ^ 2 * c)) L = Inr (r ^ 2 * c)
   \<and> view_shape (r ^ 2 * c) (1, c, r, r) = Inr (1, c, r, r)
   \<and> repeat_shape (1, c, r, r) (b, 1, h div r, w div r) = (b, c, r * (h div r), r * (w div r))
   \<and> (0 < r \<longrightarrow>
        key_tile (Some (L, r ^ 2 * c)) (Some r) (b, c, h, w) L
          = Inr (repeat_shape (1, c, r, r) (b, 1, h div r, w div r)))
   \<and> (0 < r \<and> r dvd h \<and> r dvd w \<longrightarrow>
        key_tile (Some (L, r ^ 2 * c)) (Some r) (b, c, h, w) L = Inr (b, c, h, w) \<and>
        key_inject (Some (L, r ^ 2 * c)) (Some r) (b, c, h, w) L = Inr (b, 2 * c, h, w))
   \<and> (0 < r \<and> \<not> (r dvd h \<and> r dvd w) \<longrightarrow>
        key_inject (Some (L, r ^ 2 * c)) (Some r) (b, c, h, w) L
          = Inl (RuntimeError ''Sizes of tensors must match except in dimension 1''))
   \<and> (klen \<noteq> L \<longrightarrow>
        key_tile (Some (L, out)) red (b, c, h, w) klen
          = Inl (RuntimeError ''mat1 and mat2 shapes cannot be multiplied''))
   \<and> (out \<noteq> c * r * r \<longrightarrow>
        key_tile (Some (L, out)) (Some r) (b, c, h, w) L
          = Inl (RuntimeError ''shape is invalid for input size''))
   \<and> (key_tile enc red (b, c, h, w) klen = Inr y \<longleftrightarrow>
        (\<exists>r'. red = Some r' \<and> enc = Some (klen, c * r' * r') \<and> 0 < r'
              \<and> y = (b, c, r' * (h div r'), r' * (w div r'))))
   \<and> (key_inject enc red (b, c, h, w) klen = Inr y \<longleftrightarrow>
        (\<exists>r'. red = Some r' \<and> enc = Some (klen, c * r' * r') \<and> 0 < r' \<and> r' dvd h \<and> r' dvd w
              \<and> y = (b, 2 * c, h, w)))
   \<and> (\<not> (r dvd h \<and> r dvd w) \<longrightarrow>
        (\<exists>e. forward_block (Block True (Some r) enc m) (b, c, h, w) (Some klen) = Inl e) \<and>
        (\<exists>e. RevealNet_forward_shape (R\<lparr>redundance_size := Some r\<rparr>) (b, c, h, w) (Some klen)
               = Inl e))
   \<and> (UnetSkipConnectionBlock_init outer_nc inner_nc (Some c) sub True inn nl ud f
          (Some L) (Some r) = Inr blk \<longrightarrow>
        outmost blk \<and> blk_encoder blk = Some (L, r ^ 2 * c) \<and> blk_redundance_size blk = Some r)
   \<and> (RevealNet_init c output_nc nrf norm_type f (Some L) (Some r) = Inr R' \<longrightarrow>
        encoder R' = Some (L, r ^ 2 * c) \<and> redundance_size R' = Some r \<and>
        (0 < r \<and> r dvd h \<and> r dvd w \<and> 0 < h \<and> 0 < w \<longrightarrow>
           RevealNet_forward_shape R' (b, c, h, w) (Some L) = Inr (b, output_nc, h, w)))"
proof -
  have 1: "linear_shape (Some (L, r ^ 2 * c)) L = Inr (r ^ 2 * c)"
    and 2: "view_shape (r ^ 2 * c) (1, c, r, r) = Inr (1, c, r, r)"
    and 3: "repeat_shape (1, c, r, r) (b, 1, h div r, w div r) = (b, c, r * (h div r), r * (w div r))"
    by (rule projection_shape)+
  have 4: "0 < r \<longrightarrow>
        key_tile (Some (L, r ^ 2 * c)) (Some r) (b, c, h, w) L
          = Inr (repeat_shape (1, c, r, r) (b, 1, h div r, w div r))"
    by (simp add: key_tile_general)
  have 5: "0 < r \<and> r dvd h \<and> r dvd w \<longrightarrow>
        key_tile (Some (L, r ^ 2 * c)) (Some r) (b, c, h, w) L = Inr (b, c, h, w) \<and>
        key_inject (Some (L, r ^ 2 * c)) (Some r) (b, c, h, w) L = Inr (b, 2 * c, h, w)"
    by (simp add: key_tile_ok key_inject_ok)
  have 6: "0 < r \<and> \<not> (r dvd h \<and> r dvd w) \<longrightarrow>
        key_inject (Some (L, r ^ 2 * c)) (Some r) (b, c, h, w) L
          = Inl (RuntimeError ''Sizes of tensors must match except in dimension 1'')"
    by (simp add: key_inject_size_error)
  have 7: "klen \<noteq> L \<longrightarrow>
        key_tile (Some (L, out)) red (b, c, h, w) klen
          = Inl (RuntimeError ''mat1 and mat2 shapes cannot be multiplied'')"
    by (simp add: key_tile_wrong_length)
  have 8: "out \<noteq> c * r * r \<longrightarrow>
        key_tile (Some (L, out)) (Some r) (b, c, h, w) L
          = Inl (RuntimeError ''shape is invalid for input size'')"
    by (simp add: key_tile_wrong_size)
  have 9: "key_tile enc red (b, c, h, w) klen = Inr y \<longleftrightarrow>
        (\<exists>r'. red = Some r' \<and> enc = Some (klen, c * r' * r') \<and> 0 < r'
              \<and> y = (b, c, r' * (h div r'), r' * (w div r')))"
    by (rule key_tile_Inr_iff)
  have 10: "key_inject enc red (b, c, h, w) klen = Inr y \<longleftrightarrow>
        (\<exists>r'. red = Some r' \<and> enc = Some (klen, c * r' * r') \<and> 0 < r' \<and> r' dvd h \<and> r' dvd w
              \<and> y = (b, 2 * c, h, w))"
    by (rule key_inject_Inr_iff)
  have 11: "\<not> (r dvd h \<and> r dvd w) \<longrightarrow>
        (\<exists>e. forward_block (Block True (Some r) enc m) (b, c, h, w) (Some klen) = Inl e) \<and>
        (\<exists>e. RevealNet_forward_shape (R\<lparr>redundance_size := Some r\<rparr>) (b, c, h, w) (Some klen)
               = Inl e)"
  proof (intro impI conjI)
    assume n: "\<not> (r dvd h \<and> r dvd w)"
    from key_inject_not_dvd[OF n] obtain e where
      e: "key_inject enc (Some r) (b, c, h, w) klen = Inl e" by blast
    show "\<exists>e. forward_block (Block True (Some r) enc m) (b, c, h, w) (Some klen) = Inl e"
      by (simp add: e bind_Inl)
    from key_inject_not_dvd[OF n] obtain e' where
      e': "key_inject (encoder R) (Some r) (b, c, h, w) klen = Inl e'" by blast
    show "\<exists>e. RevealNet_forward_shape (R\<lparr>redundance_size := Some r\<rparr>) (b, c, h, w) (Some klen) = Inl e"
      by (simp add: RevealNet_forward_shape_def e' bind_Inl)
  qed
  have 12: "UnetSkipConnectionBlock_init outer_nc inner_nc (Some c) sub True inn nl ud f
          (Some L) (Some r) = Inr blk \<longrightarrow>
        outmost blk \<and> blk_encoder blk = Some (L, r ^ 2 * c) \<and> blk_redundance_size blk = Some r"
  proof
    assume i: "UnetSkipConnectionBlock_init outer_nc inner_nc (Some c) sub True inn nl ud f
          (Some L) (Some r) = Inr blk"
    show "outmost blk \<and> blk_encoder blk = Some (L, r ^ 2 * c) \<and> blk_redundance_size blk = Some r"
      by (rule init_outermost_encoder[OF i])
  qed
  have 13: "RevealNet_init c output_nc nrf norm_type f (Some L) (Some r) = Inr R' \<longrightarrow>
        encoder R' = Some (L, r ^ 2 * c) \<and> redundance_size R' = Some r \<and>
        (0 < r \<and> r dvd h \<and> r dvd w \<and> 0 < h \<and> 0 < w \<longrightarrow>
           RevealNet_forward_shape R' (b, c, h, w) (Some L) = Inr (b, output_nc, h, w))"
  proof (intro impI conjI)
    assume i: "RevealNet_init c output_nc nrf norm_type f (Some L) (Some r) = Inr R'"
    show "encoder R' = Some (L, r ^ 2 * c)" by (rule RevealNet_init_encoder(1)[OF i])
    show "redundance_size R' = Some r" by (rule RevealNet_init_encoder(2)[OF i])
    assume "0 < r \<and> r dvd h \<and> r dvd w \<and> 0 < h \<and> 0 < w"
    then show "RevealNet_forward_shape R' (b, c, h, w) (Some L) = Inr (b, output_nc, h, w)"
      by (simp add: RevealNet_forward_key_ok[OF i])
  qed
  from 1 2 3 4 5 6 7 8 9 10 11 12 13 show ?thesis
    by (intro conjI)
qed

theorem key_tile_contract_witness:
  "key_tile (Some (256, 16 ^ 2 * 3)) (Some 16) (10, 3, 256, 256) 256 = Inr (10, 3, 256, 256)
   \<and> key_inject (Some (256, 16 ^ 2 * 3)) (Some 16) (10, 3, 256, 256) 256 = Inr (10, 2 * 3, 256, 256)
   \<and> key_tile (Some (256, 16 ^ 2 * 3)) (Some 16) (10, 3, 250, 250) 256
       = Inr (10, 3, 16 * (250 div 16), 16 * (250 div 16))
   \<and> key_inject (Some (256, 16 ^ 2 * 3)) (Some 16) (10, 3, 250, 250) 256
       = Inl (RuntimeError ''Sizes of tensors must match except in dimension 1'')
   \<and> key_tile (Some (256, 16 ^ 2 * 3)) (Some 16) (10, 3, 256, 256) 128
       = Inl (RuntimeError ''mat1 and mat2 shapes cannot be multiplied'')
   \<and> key_tile (Some (256, 100)) (Some 16) (10, 3, 256, 256) 256
       = Inl (RuntimeError ''shape is invalid for input size'')
   \<and> (\<exists>R'. RevealNet_init 3 3 64 ''none'' ''sigmoid'' (Some 256) (Some 16) = Inr R'
         \<and> encoder R' = Some (256, 16 ^ 2 * 3) \<and> redundance_size R' = Some 16
         \<and> RevealNet_forward_shape R' (10, 3, 256, 256) (Some 256) = Inr (10, 3, 256, 256))
   \<and> (\<exists>blk. UnetSkipConnectionBlock_init 3 64 (Some 6) (Some (Block False None None [])) True
                False Identity False ''sigmoid'' (Some 256) (Some 16) = Inr blk
         \<and> outmost blk \<and> blk_encoder blk = Some (256, 16 ^ 2 * 6)
         \<and> blk_redundance_size blk = Some 16)
   \<and> (\<exists>e. forward_block (Block True (Some 16) (Some (256, 16 ^ 2 * 3)) []) (10, 3, 250, 250)
              (Some 256) = Inl e)"
proof -
  have p: "(0::nat) < 16 \<and> (16::nat) dvd 256 \<and> (16::nat) dvd 256" by simp
  have n: "(0::nat) < 16 \<and> \<not> ((16::nat) dvd 250 \<and> (16::nat) dvd 250)" by simp
  have l: "(128::nat) \<noteq> 256" by simp
  have o: "(100::nat) \<noteq> 3 * 16 * 16" by simp
  note A = key_tile_contract[where L = 256 and r = 16 and c = 3 and b = 10 and h = 256 and w = 256
      and klen = 128 and out = "16 ^ 2 * 3" and red = "Some 16"]
  note B = key_tile_contract[where L = 256 and r = 16 and c = 3 and b = 10 and h = 250 and w = 250
      and out = 100]
  from A p have a: "key_tile (Some (256, 16 ^ 2 * 3)) (Some 16) (10, 3, 256, 256) 256 = Inr (10, 3, 256, 256)"
    and b: "key_inject (Some (256, 16 ^ 2 * 3)) (Some 16) (10, 3, 256, 256) 256 = Inr (10, 2 * 3, 256, 256)"
    by blast+
  from A l have e: "key_tile (Some (256, 16 ^ 2 * 3)) (Some 16) (10, 3, 256, 256) 128
       = Inl (RuntimeError ''mat1 and mat2 shapes cannot be multiplied'')"
    by blast
  from B n have c: "key_tile (Some (256, 16 ^ 2 * 3)) (Some 16) (10, 3, 250, 250) 256
       = Inr (repeat_shape (1, 3, 16, 16) (10, 1, 250 div 16, 250 div 16))"
    and c': "repeat_shape (1, 3, 16, 16) (10, 1, 250 div 16, 250 div 16)
               = (10, 3, 16 * (250 div 16), 16 * (250 div 16))"
    and d: "key_inject (Some (256, 16 ^ 2 * 3)) (Some 16) (10, 3, 250, 250) 256
       = Inl (RuntimeError ''Sizes of tensors must match except in dimension 1'')"
    by blast+
  note B' = key_tile_contract[where L = 256 and r = 16 and c = 3 and b = 10 and h = 256 and w = 256
      and out = 100]
  from B' o have g: "key_tile (Some (256, 100)) (Some 16) (10, 3, 256, 256) 256
       = Inl (RuntimeError ''shape is invalid for input size'')"
    by blast
  from c c' have c'': "key_tile (Some (256, 16 ^ 2 * 3)) (Some 16) (10, 3, 250, 250) 256
       = Inr (10, 3, 16 * (250 div 16), 16 * (250 div 16))"
    by (simp only:)
  obtain R0 where R0: "RevealNet_init 3 3 64 ''none'' ''sigmoid'' (Some 256) (Some 16) = Inr R0"
    by (simp add: RevealNet_init_def bind_def get_norm_layer_def)
  have p': "(0::nat) < 16 \<and> (16::nat) dvd 256 \<and> (16::nat) dvd 256 \<and> (0::nat) < 256
      \<and> (0::nat) < 256"
    by simp
  note D = key_tile_contract[where L = 256 and r = 16 and c = 3 and b = 10 and h = 256 and w = 256
      and output_nc = 3 and nrf = 64 and norm_type = "''none''" and f = "''sigmoid''" and R' = R0]
  from D R0 p' have "encoder R0 = Some (256, 16 ^ 2 * 3) \<and> redundance_size R0 = Some 16
         \<and> RevealNet_forward_shape R0 (10, 3, 256, 256) (Some 256) = Inr (10, 3, 256, 256)"
    by blast
  with R0 have x1: "\<exists>R'. RevealNet_init 3 3 64 ''none'' ''sigmoid'' (Some 256) (Some 16) = Inr R'
         \<and> encoder R' = Some (256, 16 ^ 2 * 3) \<and> redundance_size R' = Some 16
         \<and> RevealNet_forward_shape R' (10, 3, 256, 256) (Some 256) = Inr (10, 3, 256, 256)"
    by blast
  obtain b0 where b0: "UnetSkipConnectionBlock_init 3 64 (Some 6) (Some (Block False None None []))
                True False Identity False ''sigmoid'' (Some 256) (Some 16) = Inr b0"
    by (simp add: UnetSkipConnectionBlock_init_def bind_def Let_def Sequential_def)
  note E = key_tile_contract[where L = 256 and r = 16 and c = 6 and outer_nc = 3 and inner_nc = 64
      and sub = "Some (Block False None None [])" and inn = False and nl = Identity and ud = False
      and f = "''sigmoid''" and blk = b0]
  from E b0 have "outmost b0 \<and> blk_encoder b0 = Some (256, 16 ^ 2 * 6)
      \<and> blk_redundance_size b0 = Some 16"
    by blast
  with b0 have x2: "\<exists>blk. UnetSkipConnectionBlock_init 3 64 (Some 6)
                (Some (Block False None None [])) True
                False Identity False ''sigmoid'' (Some 256) (Some 16) = Inr blk
         \<and> outmost blk \<and> blk_encoder blk = Some (256, 16 ^ 2 * 6)
         \<and> blk_redundance_size blk = Some 16"
    by blast
  have n': "\<not> ((16::nat) dvd 250 \<and> (16::nat) dvd 250)" by simp
  note F = key_tile_contract[where r = 16 and c = 3 and b = 10 and h = 250 and w = 250
      and enc = "Some (256, 16 ^ 2 * 3)" and m = "[]" and klen = 256]
  from F n' have x3: "\<exists>e. forward_block (Block True (Some 16) (Some (256, 16 ^ 2 * 3)) [])
              (10, 3, 250, 250) (Some 256) = Inl e"
    by blast
  from a b c'' d e g x1 x2 x3 show ?thesis by (intro conjI)
qed

section \<open>Key sampling\<close>

lemma nth_key_0: "nth_key w g 0 = fst (sample_key w g)"
  by (simp add: nth_key_def)

lemma nth_key_Suc: "nth_key w (snd (sample_key w g)) n = nth_key w g (Suc n)"
  by (simp add: nth_key_def sample_key_def add.assoc add.commute add.left_commute)





lemma resample_Some:
  assumes "resample w key fake_key g = Some y"
  shows "fst y \<noteq> key \<and> (fake_key \<noteq> key \<or> (\<exists>n. nth_key w g n \<noteq> key))"
proof (rule resample.raw_induct
    [where P = "\<lambda>w key fake_key g y. fst y \<noteq> key \<and> (fake_key \<noteq> key \<or> (\<exists>n. nth_key w g n \<noteq> key))",
     OF _ assms], goal_cases)
  case (1 f w key fake_key g y)
  show ?case
  proof (cases "fake_key = key")
    case False
    with 1(2) show ?thesis by auto
  next
    case True
    with 1(2) have c: "f w key (nth_key w g 0) (snd (sample_key w g)) = Some y"
      by (simp add: nth_key_0 split: prod.splits)
    from 1(1)[OF c] have a: "fst y \<noteq> key"
      and b: "nth_key w g 0 \<noteq> key \<or> (\<exists>n. nth_key w (snd (sample_key w g)) n \<noteq> key)"
      by blast+
    from b have "\<exists>n. nth_key w g n \<noteq> key"
      by (metis nth_key_Suc)
    with a show ?thesis by blast
  qed
qed

lemma resample_None:
  "(\<forall>n. nth_key w g n = key) \<Longrightarrow> resample w key key g = None"
  using resample_Some[of w key key g] by (cases "resample w key key g") auto








section \<open>The forward pass of training\<close>






lemma zeros_entries:
  "i < b \<Longrightarrow> j < c \<Longrightarrow> k < h \<Longrightarrow> l < w \<Longrightarrow> zeros_t (b, c, h, w) ! i ! j ! k ! l = 0"
  by (simp add: zeros_t_def)











end
